theory Spec2Isabelle
  imports Main "HOL-Library.Word"
begin

section \<open>Python values, exceptions and string builtins\<close>

text \<open>
  The two modules are Python. An exception is a value, and every function that can raise
  returns a sum whose left injection is the exception. \<open>HTTPException\<close> is FastAPI's
  exception class; it derives from \<open>Exception\<close>, so an \<open>except Exception\<close> clause
  catches it like any other. Python's \<open>None\<close> is HOL's \<open>None\<close>.
\<close>

datatype py_exception =
    TypeError
  | ValueError
  | IndexError
  | OSError
  | OperationalError
  | IntegrityError
  | HTTPException nat

type_synonym byte = "8 word"

text \<open>\<open>s.replace(old, new)\<close>: every occurrence, found left to right without overlap.\<close>

function py_replace :: "string \<Rightarrow> string \<Rightarrow> string \<Rightarrow> string" where
  "py_replace old new s =
     (if old = [] then concat (map (\<lambda>c. new @ [c]) s) @ new
      else if s = [] then []
      else if take (length old) s = old
        then new @ py_replace old new (drop (length old) s)
      else hd s # py_replace old new (tl s))"
  by pat_completeness auto
termination
  by (relation "measure (\<lambda>(old, new, s). length s)") auto

declare py_replace.simps [simp del]

text \<open>\<open>s.split(sep)\<close> for a separator of one character; the result is never empty.\<close>

fun py_split :: "char \<Rightarrow> string \<Rightarrow> string list" where
  "py_split sep [] = [[]]"
| "py_split sep (c # cs) =
     (if c = sep then [] # py_split sep cs
      else (case py_split sep cs of
              [] \<Rightarrow> [[c]]
            | p # ps \<Rightarrow> (c # p) # ps))"

text \<open>\<open>sub in s\<close> on strings.\<close>

fun py_in :: "string \<Rightarrow> string \<Rightarrow> bool" where
  "py_in sub [] = (sub = [])"
| "py_in sub (c # cs) = (take (length sub) (c # cs) = sub \<or> py_in sub cs)"

text \<open>
  \<open>int(s)\<close> on a string of Latin-1 characters (the decoding of an HTTP header value):
  surrounding whitespace is dropped, one sign is allowed, the digits may be grouped by
  single underscores, and a literal of more than 4300 digits is refused. The whitespace
  that \<open>int\<close> accepts is tab, line feed, vertical tab, form feed, carriage return, space,
  and the two Latin-1 spaces 0x85 and 0xA0.
\<close>

definition is_space :: "char \<Rightarrow> bool" where
  "is_space c \<longleftrightarrow> (of_char c :: nat) \<in> {9, 10, 11, 12, 13, 32, 133, 160}"

definition is_digit :: "char \<Rightarrow> bool" where
  "is_digit c \<longleftrightarrow> 48 \<le> (of_char c :: nat) \<and> (of_char c :: nat) \<le> 57"

definition digit_val :: "char \<Rightarrow> nat" where
  "digit_val c = of_char c - 48"

definition strip_space :: "string \<Rightarrow> string" where
  "strip_space s = rev (dropWhile is_space (rev (dropWhile is_space s)))"

fun no_double_underscore :: "string \<Rightarrow> bool" where
  "no_double_underscore (a # b # cs) =
     (\<not> (a = CHR ''_'' \<and> b = CHR ''_'') \<and> no_double_underscore (b # cs))"
| "no_double_underscore cs = True"

definition valid_digits :: "string \<Rightarrow> bool" where
  "valid_digits u \<longleftrightarrow>
     u \<noteq> [] \<and> (\<forall>c \<in> set u. is_digit c \<or> c = CHR ''_'') \<and>
     hd u \<noteq> CHR ''_'' \<and> last u \<noteq> CHR ''_'' \<and> no_double_underscore u"

definition digits_value :: "string \<Rightarrow> nat" where
  "digits_value u = foldl (\<lambda>acc c. 10 * acc + digit_val c) 0 (filter is_digit u)"

definition max_str_digits :: nat where
  "max_str_digits = 4300"

definition py_int :: "string \<Rightarrow> py_exception + int" where
  "py_int s =
     (let t = strip_space s;
          neg = (t \<noteq> [] \<and> hd t = CHR ''-'');
          u = (if t \<noteq> [] \<and> (hd t = CHR ''-'' \<or> hd t = CHR ''+'') then tl t else t)
      in if valid_digits u \<and> length (filter is_digit u) \<le> max_str_digits
         then Inr (if neg then - int (digits_value u) else int (digits_value u))
         else Inl ValueError)"

text \<open>
  \<open>str(n)\<close> and the f-string rendering of an integer: decimal, no padding; an integer
  of more than 4300 digits is refused with \<open>ValueError\<close>.
\<close>

definition digit_char :: "nat \<Rightarrow> char" where
  "digit_char d = char_of (48 + d)"

function str_nat :: "nat \<Rightarrow> string" where
  "str_nat n =
     (if n < 10 then [digit_char n] else str_nat (n div 10) @ [digit_char (n mod 10)])"
  by pat_completeness auto
termination
  by (relation "measure id") auto

declare str_nat.simps [simp del]

definition py_str :: "int \<Rightarrow> py_exception + string" where
  "py_str i =
     (if length (str_nat (nat \<bar>i\<bar>)) > max_str_digits then Inl ValueError
      else Inr (if i < 0 then CHR ''-'' # str_nat (nat (- i)) else str_nat (nat i)))"

section \<open>Streaming server (web\_interface.py)\<close>

text \<open>
  The file system maps a path to the bytes of the regular file stored there. A response
  carries the status, the headers the handler sets, and the body; the body of a streamed
  response is what the generator yields, or the exception that ends it. The detail text
  of an \<open>HTTPException\<close> is not modelled.
\<close>

type_synonym filesystem = "string \<rightharpoonup> byte list"

record response =
  status_code :: nat
  headers :: "(string \<times> string) list"
  body :: "py_exception + byte list"

text \<open>\<open>f.seek(pos); f.read(n)\<close> on a binary file: up to \<open>n\<close> bytes from \<open>pos\<close>.\<close>

definition f_read :: "byte list \<Rightarrow> nat \<Rightarrow> nat \<Rightarrow> byte list" where
  "f_read content pos n = take n (drop pos content)"

text \<open>The \<open>while remaining > 0\<close> loop of \<open>iterfile\<close>; the result lists the chunks yielded.\<close>

function iterfile_loop :: "byte list \<Rightarrow> nat \<Rightarrow> int \<Rightarrow> byte list list" where
  "iterfile_loop content pos remaining =
     (if remaining > 0 then
        (let chunk = f_read content pos (nat (min 8192 remaining))
         in if chunk = [] then []
            else chunk # iterfile_loop content (pos + length chunk)
                           (remaining - int (length chunk)))
      else [])"
  by pat_completeness auto
termination
  by (relation "measure (\<lambda>(content, pos, remaining). nat remaining)") auto

declare iterfile_loop.simps [simp del]

text \<open>
  \<open>f.seek(start)\<close> raises before anything is read: \<open>OSError\<close> on a negative offset,
  \<open>ValueError\<close> on one that does not fit the 64-bit offset type. (A file system may
  refuse a smaller offset too; no offset inside the file is refused.)
\<close>

definition iterfile :: "byte list \<Rightarrow> int \<Rightarrow> int \<Rightarrow> py_exception + byte list list" where
  "iterfile content start chunk_size =
     (if start < 0 then Inl OSError
      else if start \<ge> 2 ^ 63 then Inl ValueError
      else Inr (iterfile_loop content (nat start) chunk_size))"

text \<open>
  \<open>FileResponse\<close> is the framework's response for a whole file: status 200, the
  media type and the header the handler passes. (Releases of the framework that serve
  ranges from \<open>FileResponse\<close> itself look at the request again; the handler reaches
  it only without a range header or with an empty one.)
\<close>

definition FileResponse :: "byte list \<Rightarrow> response" where
  "FileResponse content =
     \<lparr>status_code = 200,
      headers = [(''Accept-Ranges'', ''bytes''), (''Content-Type'', ''video/mp4'')],
      body = Inr content\<rparr>"

definition StreamingResponse ::
  "py_exception + byte list list \<Rightarrow> nat \<Rightarrow> (string \<times> string) list \<Rightarrow> response" where
  "StreamingResponse chunks code hs =
     \<lparr>status_code = code, headers = hs,
      body = (case chunks of Inl e \<Rightarrow> Inl e | Inr cs \<Rightarrow> Inr (concat cs))\<rparr>"

text \<open>The body of the \<open>try\<close> block of \<open>stream_video\<close>.\<close>

definition stream_video_try ::
  "filesystem \<Rightarrow> string \<Rightarrow> string option \<Rightarrow> py_exception + response" where
  "stream_video_try fs file_path range_header =
     (case fs file_path of
        None \<Rightarrow> Inl (HTTPException 404)
      | Some content \<Rightarrow>
          (let file_size = int (length content) in
           if range_header \<noteq> None \<and> range_header \<noteq> Some [] then
             (let range_match =
                    py_split CHR ''-'' (py_replace ''bytes='' [] (the range_header))
              in case py_int (hd range_match) of
                   Inl e \<Rightarrow> Inl e
                 | Inr start \<Rightarrow>
                     if length range_match < 2 then Inl IndexError
                     else
                       (case (if range_match ! 1 \<noteq> [] then py_int (range_match ! 1)
                              else Inr (file_size - 1)) of
                          Inl e \<Rightarrow> Inl e
                        | Inr end \<Rightarrow>
                            (let chunk_size = end - start + 1
                             in case py_str start of
                                  Inl e \<Rightarrow> Inl e
                                | Inr start_text \<Rightarrow>
                             (case py_str end of
                                  Inl e \<Rightarrow> Inl e
                                | Inr end_text \<Rightarrow>
                             (case py_str file_size of
                                  Inl e \<Rightarrow> Inl e
                                | Inr size_text \<Rightarrow>
                             (case py_str chunk_size of
                                  Inl e \<Rightarrow> Inl e
                                | Inr chunk_text \<Rightarrow>
                                    Inr (StreamingResponse
                                      (iterfile content start chunk_size) 206
                                      [(''Content-Range'',
                                          ''bytes '' @ start_text @ ''-'' @ end_text
                                            @ ''/'' @ size_text),
                                       (''Accept-Ranges'', ''bytes''),
                                       (''Content-Length'', chunk_text),
                                       (''Content-Type'', ''video/mp4'')])))))))
           else Inr (FileResponse content)))"

text \<open>\<open>except Exception as e: raise HTTPException(status_code=500, ...)\<close>.\<close>

definition except_500 :: "py_exception + response \<Rightarrow> py_exception + response" where
  "except_500 r = (case r of Inl e \<Rightarrow> Inl (HTTPException 500) | Inr x \<Rightarrow> Inr x)"

definition stream_video ::
  "filesystem \<Rightarrow> string \<Rightarrow> string option \<Rightarrow> py_exception + response" where
  "stream_video fs file_path range_header =
     except_500 (stream_video_try fs file_path range_header)"

text \<open>The status the client sees: FastAPI answers an \<open>HTTPException\<close> with its code.\<close>

fun http_status :: "py_exception + response \<Rightarrow> nat" where
  "http_status (Inr r) = status_code r"
| "http_status (Inl (HTTPException code)) = code"
| "http_status (Inl e) = 500"

section \<open>Classifier (youtube\_manager.py)\<close>

text \<open>
  The metadata dictionaries come from the external extractor. A key of a dictionary is
  absent, present with the value \<open>None\<close>, or present with a value of the type the
  extractor gives it; durations, widths, heights and counts are integers (of at most 64
  bits, as SQLite stores them).
  \<open>d.get(k)\<close> is \<open>dict_get\<close>, \<open>d.get(k, default)\<close> is \<open>dict_get_default\<close>.
  The extractor puts the URL of the page of a video under the key \<open>webpage_url\<close>;
  \<open>is_youtube_short\<close> looks its URL up under the key \<open>web_page_url\<close>, which no record
  of the extractor has. The record below has both keys.
\<close>

datatype 'a entry = Absent | Null | Val 'a

fun dict_get :: "'a entry \<Rightarrow> 'a option" where
  "dict_get Absent = None"
| "dict_get Null = None"
| "dict_get (Val x) = Some x"

fun dict_get_default :: "'a entry \<Rightarrow> 'a \<Rightarrow> 'a option" where
  "dict_get_default Absent d = Some d"
| "dict_get_default Null d = None"
| "dict_get_default (Val x) d = Some x"

text \<open>
  The values that \<open>is_youtube_short\<close> can return: \<open>and\<close> and \<open>or\<close> return one of
  their operands, so the result is a boolean, the integer duration, or \<open>None\<close>.
\<close>

datatype pyval = PyBool bool | PyInt int

fun truthy :: "pyval option \<Rightarrow> bool" where
  "truthy None = False"
| "truthy (Some (PyBool b)) = b"
| "truthy (Some (PyInt n)) = (n \<noteq> 0)"

definition py_and :: "pyval option \<Rightarrow> pyval option \<Rightarrow> pyval option" where
  "py_and a b = (if truthy a then b else a)"

definition py_or :: "pyval option \<Rightarrow> pyval option \<Rightarrow> pyval option" where
  "py_or a b = (if truthy a then a else b)"

record info =
  info_id :: "string entry"
  info_title :: "string entry"
  info_uploader :: "string entry"
  info_upload_date :: "string entry"
  info_duration :: "int entry"
  info_description :: "string entry"
  info_view_count :: "int entry"
  info_thumbnail :: "string entry"
  info_width :: "int entry"
  info_height :: "int entry"
  info_webpage_url :: "string entry"
  info_web_page_url :: "string entry"

definition is_youtube_short :: "info \<Rightarrow> py_exception + pyval option" where
  "is_youtube_short info =
     (let duration = dict_get_default (info_duration info) 0;
          width = dict_get_default (info_width info) 0;
          height = dict_get_default (info_height info) 0;
          is_short_duration =
            (case duration of
               None \<Rightarrow> None
             | Some d \<Rightarrow> if d \<noteq> 0 then Some (PyBool (d \<le> 60)) else Some (PyInt d));
          is_vertical =
            (case (height, width) of
               (Some h, Some w) \<Rightarrow> if h \<noteq> 0 \<and> w \<noteq> 0 then h > w else False
             | _ \<Rightarrow> False)
      in case dict_get_default (info_web_page_url info) [] of
           None \<Rightarrow> Inl TypeError
         | Some url \<Rightarrow>
             (let is_short_url = py_in ''/shorts/'' url
              in Inr (py_or (Some (PyBool is_short_url))
                        (py_and is_short_duration (Some (PyBool is_vertical))))))"

text \<open>
  \<open>re.sub\<close> raises \<open>TypeError\<close> when the file name is \<open>None\<close>. The slice keeps 200
  characters; a character is a byte here and a code point in Python.
\<close>

definition invalid_chars :: "char set" where
  "invalid_chars =
     {CHR ''<'', CHR ''>'', CHR '':'', CHR 0x22, CHR ''/'', CHR 0x5C, CHR ''|'', CHR ''?'',
      CHR ''*''}"

definition sanitize_filename :: "string option \<Rightarrow> py_exception + string" where
  "sanitize_filename filename =
     (case filename of
        None \<Rightarrow> Inl TypeError
      | Some f \<Rightarrow> Inr (take 200 (filter (\<lambda>c. c \<notin> invalid_chars) f)))"

section \<open>Catalog store (youtube\_manager.py)\<close>

text \<open>
  The SQLite database: each table is the list of its rows in insertion order, and each
  \<open>AUTOINCREMENT\<close> table has its counter of the largest row id ever used. A nullable
  column is an option. Foreign keys are declared but not enforced (the module never
  turns the pragma on), so deleting a video leaves the rows that refer to it.
  Row ids are far below the 64-bit limit of SQLite and are natural numbers here.
\<close>

record video_row =
  v_id :: nat
  v_video_id :: string
  v_title :: string
  v_uploader :: "string option"
  v_upload_date :: "string option"
  v_duration :: "int option"
  v_description :: "string option"
  v_view_count :: "int option"
  v_is_short :: "int option"
  v_file_path :: "string option"
  v_thumbnail_path :: "string option"
  v_download_date :: "string option"
  v_original_url :: "string option"
  v_status :: "string option"

record tag_row =
  t_id :: nat
  t_video_id :: nat
  t_tag :: string

record playlist_row =
  p_id :: nat
  p_playlist_id :: "string option"
  p_name :: string
  p_description :: "string option"
  p_created_date :: "string option"

record playlist_item_row =
  pi_playlist_id :: nat
  pi_videos_id :: nat
  pi_position :: nat

record database =
  videos :: "video_row list"
  videos_seq :: nat
  tags :: "tag_row list"
  tags_seq :: nat
  playlists :: "playlist_row list"
  playlists_seq :: nat
  playlist_items :: "playlist_item_row list"

text \<open>
  The row id of an insert into an \<open>AUTOINCREMENT\<close> table: one more than the largest
  id the table has ever held.
\<close>

definition next_rowid :: "nat \<Rightarrow> nat list \<Rightarrow> nat" where
  "next_rowid seq ids = Suc (fold max ids seq)"

text \<open>
  \<open>cursor.execute\<close> tokenises the statement first. A quote (single, double or backtick)
  opens a literal that runs to the next quote of the same kind, a doubled quote standing
  for the quote itself; a literal still open at the end of the text is an illegal token
  and \<open>execute\<close> raises \<open>OperationalError\<close>. \<open>sql_unterminated\<close> holds for such a text.
  The statements are given line by line, without their indentation.
\<close>

definition is_quote :: "char \<Rightarrow> bool" where
  "is_quote c \<longleftrightarrow> c = CHR 0x27 \<or> c = CHR 0x22 \<or> c = CHR 0x60"

fun sql_scan :: "char option \<Rightarrow> string \<Rightarrow> bool" where
  "sql_scan None [] = False"
| "sql_scan (Some q) [] = True"
| "sql_scan None (c # cs) = sql_scan (if is_quote c then Some c else None) cs"
| "sql_scan (Some q) [c] = (c \<noteq> q)"
| "sql_scan (Some q) (c # d # cs) =
     (if c = q then (if d = q then sql_scan (Some q) cs else sql_scan None (d # cs))
      else sql_scan (Some q) (d # cs))"

definition sql_unterminated :: "string \<Rightarrow> bool" where
  "sql_unterminated text = sql_scan None text"

definition sql_text :: "string list \<Rightarrow> string" where
  "sql_text ls = concat (map (\<lambda>l. CHR 0x0A # l) ls) @ [CHR 0x0A]"

definition sql_insert_video :: string where
  "sql_insert_video = sql_text
     [''INSERT OR REPLACE INTO videos '',
      ''(video_id, title, uploader, upload_date, duration, description, '',
      '' view_count, is_short, file_path, thumbnail_path, download_date, '',
      '' original_url, status)'',
      ''VALUES (?, ?, ?, ?, ?, ?, ?, ?, ?, ?, ?, ?, ?)'']"

definition sql_insert_tag :: string where
  "sql_insert_tag = sql_text
     [''INSERT INTO tags (video_id, tag)'',
      ''VALUES (?, ?)'']"

definition sql_select_completed :: string where
  "sql_select_completed =
     ''SELECT * FROM videos WHERE status = '' @ [CHR 0x27] @ ''completed'' @ [CHR 0x27]"

definition sql_select_completed_short :: string where
  "sql_select_completed_short =
     ''SELECT * FROM videos WHERE status = '' @ [CHR 0x27] @ ''completed'' @ [CHR 0x27]
       @ '' AND is_short = ?''"

definition sql_search :: string where
  "sql_search = sql_text
     [''SELECT * FROM videos'',
      ''WHERE (title LIKE ? OR uploader LIKE ?)'',
      ''AND status = '' @ [CHR 0x27] @ ''completed'']"

definition sql_insert_playlist :: string where
  "sql_insert_playlist = sql_text
     [''INSERT OR IGNORE INTO playlists (playlist_id, name, description, created_date)'',
      ''VALUES (?, ?, ?, ?)'']"

definition sql_select_playlist :: string where
  "sql_select_playlist = ''SELECT id FROM playlists WHERE playlist_id = ?''"

definition sql_insert_playlist_item :: string where
  "sql_insert_playlist_item = sql_text
     [''INSERT INTO playlist_items (playlist_id, videos_id, position)'',
      ''VALUES (?, ?, ?)'']"

definition sql_select_file_path :: string where
  "sql_select_file_path = ''SELECT file_path FROM videos WHERE id = ?''"

text \<open>
  The \<open>video_data\<close> dictionary of \<open>save_to_database\<close>. sqlite3 binds \<open>None\<close> to
  \<open>NULL\<close>, \<open>True\<close> and \<open>False\<close> to 1 and 0, and an integer to itself.
\<close>

record video_data =
  vd_video_id :: "string entry"
  vd_title :: "string entry"
  vd_uploader :: "string entry"
  vd_upload_date :: "string entry"
  vd_duration :: "int entry"
  vd_description :: "string entry"
  vd_view_count :: "int entry"
  vd_is_short :: "pyval entry"
  vd_file_path :: "string entry"
  vd_thumbnail_path :: "string entry"
  vd_download_date :: "string entry"
  vd_original_url :: "string entry"
  vd_status :: "string entry"

fun bind_pyval :: "pyval option \<Rightarrow> int option" where
  "bind_pyval None = None"
| "bind_pyval (Some (PyBool b)) = Some (if b then 1 else 0)"
| "bind_pyval (Some (PyInt n)) = Some n"

definition insert_tag :: "nat \<Rightarrow> database \<Rightarrow> string \<Rightarrow> database" where
  "insert_tag video_db_id db tag =
     (let tid = next_rowid (tags_seq db) (map t_id (tags db))
      in db\<lparr>tags := tags db @ [\<lparr>t_id = tid, t_video_id = video_db_id, t_tag = tag\<rparr>],
            tags_seq := tid\<rparr>)"

text \<open>
  \<open>INSERT OR REPLACE\<close> into \<open>videos\<close>: a \<open>NULL\<close> in a \<open>NOT NULL\<close> column without
  default aborts with \<open>IntegrityError\<close>; otherwise the row that holds the same
  \<open>video_id\<close> (the \<open>UNIQUE\<close> column) is deleted and the new row gets a fresh row id.
  An exception leaves the function before \<open>commit\<close>, so the database is unchanged.
\<close>

definition save_to_database ::
  "database \<Rightarrow> video_data \<Rightarrow> string list option \<Rightarrow> string option
     \<Rightarrow> database \<times> (py_exception + nat)" where
  "save_to_database db video_data tags' playlist_name =
     (if sql_unterminated sql_insert_video then (db, Inl OperationalError)
      else
        (case (dict_get (vd_video_id video_data), dict_get (vd_title video_data)) of
           (Some vid, Some title) \<Rightarrow>
             (let video_db_id = next_rowid (videos_seq db) (map v_id (videos db));
                  row = \<lparr>v_id = video_db_id,
                         v_video_id = vid,
                         v_title = title,
                         v_uploader = dict_get (vd_uploader video_data),
                         v_upload_date = dict_get (vd_upload_date video_data),
                         v_duration = dict_get (vd_duration video_data),
                         v_description = dict_get (vd_description video_data),
                         v_view_count = dict_get (vd_view_count video_data),
                         v_is_short =
                           bind_pyval (dict_get_default (vd_is_short video_data) (PyBool False)),
                         v_file_path = dict_get (vd_file_path video_data),
                         v_thumbnail_path = dict_get (vd_thumbnail_path video_data),
                         v_download_date = dict_get (vd_download_date video_data),
                         v_original_url = dict_get (vd_original_url video_data),
                         v_status = dict_get_default (vd_status video_data) ''completed''\<rparr>;
                  db1 = db\<lparr>videos := filter (\<lambda>r. v_video_id r \<noteq> vid) (videos db) @ [row],
                           videos_seq := video_db_id\<rparr>;
                  all_tags = ''YouTube'' # (case tags' of None \<Rightarrow> [] | Some ts \<Rightarrow> ts)
              in if sql_unterminated sql_insert_tag then (db, Inl OperationalError)
                 else (foldl (insert_tag video_db_id) db1 all_tags, Inr video_db_id))
         | _ \<Rightarrow> (db, Inl IntegrityError)))"

definition get_all_videos ::
  "database \<Rightarrow> bool option \<Rightarrow> py_exception + video_row list" where
  "get_all_videos db is_short =
     (case is_short of
        None \<Rightarrow>
          if sql_unterminated sql_select_completed then Inl OperationalError
          else Inr (filter (\<lambda>r. v_status r = Some ''completed'') (videos db))
      | Some b \<Rightarrow>
          if sql_unterminated sql_select_completed_short then Inl OperationalError
          else Inr (filter (\<lambda>r. v_status r = Some ''completed''
                                \<and> v_is_short r = Some (if b then 1 else 0))
                      (videos db)))"

text \<open>
  SQLite's \<open>LIKE\<close>: \<open>%\<close> matches any run of characters, \<open>_\<close> any one character, and
  ASCII letters match without regard to case; \<open>NULL LIKE p\<close> is not true.
\<close>

definition ascii_lower :: "char \<Rightarrow> char" where
  "ascii_lower c =
     (if 65 \<le> (of_char c :: nat) \<and> (of_char c :: nat) \<le> 90
      then char_of ((of_char c :: nat) + 32) else c)"

fun sql_like :: "string \<Rightarrow> string \<Rightarrow> bool" where
  "sql_like [] t = (t = [])"
| "sql_like (p # ps) [] = (p = CHR ''%'' \<and> sql_like ps [])"
| "sql_like (p # ps) (c # cs) =
     (if p = CHR ''%'' then sql_like ps (c # cs) \<or> sql_like (p # ps) cs
      else (p = CHR ''_'' \<or> ascii_lower p = ascii_lower c) \<and> sql_like ps cs)"

definition search_videos :: "database \<Rightarrow> string \<Rightarrow> py_exception + video_row list" where
  "search_videos db query =
     (if sql_unterminated sql_search then Inl OperationalError
      else
        (let pat = ''%'' @ query @ ''%''
         in Inr (filter (\<lambda>r. (sql_like pat (v_title r)
                                \<or> (case v_uploader r of None \<Rightarrow> False
                                    | Some u \<Rightarrow> sql_like pat u))
                              \<and> v_status r = Some ''completed'')
                   (videos db))))"

section \<open>Ingestion (youtube\_manager.py)\<close>

text \<open>
  What the manager does not own is a parameter: its base path, the clock, and the
  external extractor. \<open>ydl_probe\<close> is \<open>extract_info(url, download=False)\<close>,
  \<open>ydl_fetch\<close> is \<open>extract_info(url, download=True)\<close> under the given output template
  followed by \<open>prepare_filename\<close>, and \<open>ydl_listing\<close> is the flat playlist listing; the
  left injection is the message of the exception the call raises. \<open>mkdir\<close> tells
  whether \<open>mkdir(parents=True, exist_ok=True)\<close> succeeds for a directory; where it does
  not, the call raises \<open>OSError\<close>. Printing progress is not modelled.
\<close>

record playlist_entry =
  e_url :: "string entry"
  e_id :: "string entry"
  e_title :: "string entry"

record playlist_info =
  pl_title :: "string entry"
  pl_id :: "string entry"
  pl_description :: "string entry"
  pl_entries :: "playlist_entry list entry"

record env =
  base_path :: string
  now :: string
  mkdir :: "string \<Rightarrow> bool"
  ydl_probe :: "string \<Rightarrow> string + info"
  ydl_fetch :: "string \<Rightarrow> string \<Rightarrow> string + info \<times> string"
  ydl_listing :: "string \<Rightarrow> string + playlist_info"

datatype result =
    ErrorResult string
  | SuccessResult (r_video_id: "string option") (r_title: "string option")
      (r_is_short: "pyval option") (r_db_id: nat)

fun is_success :: "result \<Rightarrow> bool" where
  "is_success (SuccessResult vid title is_short db_id) = True"
| "is_success (ErrorResult msg) = False"

fun to_entry :: "'a option \<Rightarrow> 'a entry" where
  "to_entry None = Null"
| "to_entry (Some x) = Val x"

text \<open>
  \<open>pathlib\<close> paths on POSIX: a path is its root (empty, \<open>/\<close> or \<open>//\<close>) and its
  components. Empty components and \<open>.\<close> are dropped, a component that starts with
  \<open>/\<close> replaces the path it is joined to, and the path with neither root nor
  components is written \<open>.\<close>.
\<close>

type_synonym path = "string \<times> string list"

definition path_root :: "string \<Rightarrow> string" where
  "path_root s =
     (if take 2 s = ''//'' \<and> take 3 s \<noteq> ''///'' then ''//''
      else if take 1 s = ''/'' then ''/''
      else [])"

definition Path :: "string \<Rightarrow> path" where
  "Path s = (path_root s, filter (\<lambda>p. p \<noteq> [] \<and> p \<noteq> ''.'') (py_split CHR ''/'' s))"

definition path_div :: "path \<Rightarrow> string \<Rightarrow> path" where
  "path_div p s = (if take 1 s = ''/'' then Path s else (fst p, snd p @ snd (Path s)))"

fun join_parts :: "string list \<Rightarrow> string" where
  "join_parts [] = []"
| "join_parts [p] = p"
| "join_parts (p # ps) = p @ ''/'' @ join_parts ps"

definition path_str :: "path \<Rightarrow> string" where
  "path_str p = (if fst p = [] \<and> snd p = [] then ''.'' else fst p @ join_parts (snd p))"

text \<open>
  The first half of \<open>download_video\<close> after the probe: the classification, the output
  directory built from the sanitised uploader, its creation, and the output template
  built from the sanitised title.
\<close>

definition output_template :: "env \<Rightarrow> info \<Rightarrow> py_exception + pyval option \<times> string" where
  "output_template env info =
     (case is_youtube_short info of
        Inl e \<Rightarrow> Inl e
      | Inr is_short \<Rightarrow>
          (let video_type = (if truthy is_short then ''shorts'' else ''videos'')
           in case sanitize_filename (dict_get_default (info_uploader info) ''Unknown'') of
                Inl e \<Rightarrow> Inl e
              | Inr uploader \<Rightarrow>
                  (case sanitize_filename (dict_get_default (info_title info) ''Untitled'') of
                     Inl e \<Rightarrow> Inl e
                   | Inr title \<Rightarrow>
                       (let output_dir =
                              path_div (path_div (Path (base_path env)) video_type) uploader
                        in if \<not> mkdir env (path_str output_dir) then Inl OSError
                           else Inr (is_short,
                                     path_str (path_div output_dir
                                                 (title @ ''.%(ext)s'')))))))"

definition download_video ::
  "env \<Rightarrow> database \<Rightarrow> string \<Rightarrow> string list option \<Rightarrow> string option
     \<Rightarrow> database \<times> (py_exception + result)" where
  "download_video env db url custom_tags playlist_name =
     (case ydl_probe env url of
        Inl message \<Rightarrow> (db, Inr (ErrorResult message))
      | Inr info \<Rightarrow>
          (case output_template env info of
             Inl e \<Rightarrow> (db, Inl e)
           | Inr (is_short, template) \<Rightarrow>
               (case ydl_fetch env url template of
                  Inl message \<Rightarrow> (db, Inr (ErrorResult message))
                | Inr (info', downloaded_file) \<Rightarrow>
                    (let video_data =
                           \<lparr>vd_video_id = to_entry (dict_get (info_id info')),
                            vd_title = to_entry (dict_get (info_title info')),
                            vd_uploader = to_entry (dict_get (info_uploader info')),
                            vd_upload_date = to_entry (dict_get (info_upload_date info')),
                            vd_duration = to_entry (dict_get (info_duration info')),
                            vd_description = to_entry (dict_get (info_description info')),
                            vd_view_count = to_entry (dict_get (info_view_count info')),
                            vd_is_short = to_entry is_short,
                            vd_file_path = Val downloaded_file,
                            vd_thumbnail_path = to_entry (dict_get (info_thumbnail info')),
                            vd_download_date = Val (now env),
                            vd_original_url = Val url,
                            vd_status = Val ''completed''\<rparr>
                     in case save_to_database db video_data custom_tags playlist_name of
                          (db', Inl e) \<Rightarrow> (db', Inl e)
                        | (db', Inr db_video_id) \<Rightarrow>
                            (db', Inr (SuccessResult (dict_get (info_id info'))
                                         (dict_get (info_title info')) is_short
                                         db_video_id))))))"

text \<open>
  \<open>INSERT OR IGNORE\<close> into \<open>playlists\<close>: the row is skipped when its name is \<open>NULL\<close>
  or when a row already holds the same non-\<open>NULL\<close> \<open>playlist_id\<close>. SQLite takes the
  row id before it checks the constraints, so the counter advances either way.
\<close>

definition insert_or_ignore_playlist ::
  "database \<Rightarrow> string option \<Rightarrow> string option \<Rightarrow> string option \<Rightarrow> string \<Rightarrow> database" where
  "insert_or_ignore_playlist db playlist_id name description created =
     (let new_id = next_rowid (playlists_seq db) (map p_id (playlists db))
      in case name of
           None \<Rightarrow> db\<lparr>playlists_seq := new_id\<rparr>
         | Some n \<Rightarrow>
             if playlist_id \<noteq> None
                \<and> list_ex (\<lambda>r. p_playlist_id r = playlist_id) (playlists db)
             then db\<lparr>playlists_seq := new_id\<rparr>
             else db\<lparr>playlists := playlists db
                         @ [\<lparr>p_id = new_id, p_playlist_id = playlist_id, p_name = n,
                             p_description = description, p_created_date = Some created\<rparr>],
                     playlists_seq := new_id\<rparr>)"

text \<open>\<open>cursor.fetchone()[0]\<close> after the \<open>SELECT\<close>; no row gives \<open>None[0]\<close>.\<close>

definition select_playlist_id :: "database \<Rightarrow> string option \<Rightarrow> py_exception + nat" where
  "select_playlist_id db playlist_id =
     (case find (\<lambda>r. playlist_id \<noteq> None \<and> p_playlist_id r = playlist_id) (playlists db) of
        None \<Rightarrow> Inl TypeError
      | Some r \<Rightarrow> Inr (p_id r))"

definition entry_url :: "playlist_entry \<Rightarrow> string" where
  "entry_url entry =
     (case dict_get (e_url entry) of
        Some u \<Rightarrow>
          if u \<noteq> [] then u
          else ''https://www.youtube.com/watch?v=''
                 @ (case dict_get (e_id entry) of None \<Rightarrow> ''None'' | Some i \<Rightarrow> i)
      | None \<Rightarrow>
          ''https://www.youtube.com/watch?v=''
            @ (case dict_get (e_id entry) of None \<Rightarrow> ''None'' | Some i \<Rightarrow> i))"

text \<open>
  The \<open>for idx, entry in enumerate(entries)\<close> loop. An exception that leaves
  \<open>download_video\<close> leaves the loop and the function; what was committed stays.
\<close>

fun playlist_loop ::
  "env \<Rightarrow> string list option \<Rightarrow> string option \<Rightarrow> nat \<Rightarrow> nat \<Rightarrow> playlist_entry list
     \<Rightarrow> database \<Rightarrow> result list \<Rightarrow> database \<times> (py_exception + result list)" where
  "playlist_loop env custom_tags playlist_name db_playlist_id idx [] db results =
     (db, Inr results)"
| "playlist_loop env custom_tags playlist_name db_playlist_id idx (entry # rest) db results =
     (case download_video env db (entry_url entry) custom_tags playlist_name of
        (db1, Inl e) \<Rightarrow> (db1, Inl e)
      | (db1, Inr result) \<Rightarrow>
          (if is_success result \<and> sql_unterminated sql_insert_playlist_item
           then (db1, Inl OperationalError)
           else
             (let db2 =
                    (if is_success result
                     then db1\<lparr>playlist_items := playlist_items db1
                                @ [\<lparr>pi_playlist_id = db_playlist_id,
                                    pi_videos_id = r_db_id result,
                                    pi_position = idx\<rparr>]\<rparr>
                     else db1)
              in playlist_loop env custom_tags playlist_name db_playlist_id (Suc idx) rest
                   db2 (results @ [result]))))"

datatype playlist_result =
    PlaylistError string
  | PlaylistSuccess (playlist_name: "string option") (total_videos: nat)
      (results: "result list")

definition download_playlist ::
  "env \<Rightarrow> database \<Rightarrow> string \<Rightarrow> string list option
     \<Rightarrow> database \<times> (py_exception + playlist_result)" where
  "download_playlist env db playlist_url custom_tags =
     (case ydl_listing env playlist_url of
        Inl message \<Rightarrow> (db, Inr (PlaylistError message))
      | Inr playlist_info \<Rightarrow>
          (let playlist_name = dict_get_default (pl_title playlist_info) ''Unknown Playlist'';
               playlist_id = dict_get (pl_id playlist_info)
           in if sql_unterminated sql_insert_playlist then (db, Inl OperationalError)
              else
                (let db1 = insert_or_ignore_playlist db playlist_id playlist_name
                             (dict_get_default (pl_description playlist_info) [])
                             (now env)
                 in if sql_unterminated sql_select_playlist then (db1, Inl OperationalError)
                    else
                      (case select_playlist_id db1 playlist_id of
                         Inl e \<Rightarrow> (db1, Inl e)
                       | Inr db_playlist_id \<Rightarrow>
                           (case dict_get_default (pl_entries playlist_info) [] of
                              None \<Rightarrow> (db1, Inl TypeError)
                            | Some entries \<Rightarrow>
                                (case playlist_loop env custom_tags playlist_name
                                        db_playlist_id 0 entries db1 [] of
                                   (db2, Inl e) \<Rightarrow> (db2, Inl e)
                                 | (db2, Inr rs) \<Rightarrow>
                                     (db2, Inr (PlaylistSuccess playlist_name
                                                  (length entries) rs))))))))"

section \<open>Streaming by catalog id (web\_interface.py)\<close>

text \<open>
  The body of the \<open>try\<close> block of \<open>stream_by_id\<close>, and the handler with its
  \<open>except Exception\<close> clause around it. The \<open>HTTPException\<close> that \<open>stream_video\<close>
  raises passes through the same clause. A path is the string stored in the catalog;
  the normalisation that \<open>Path\<close> applies is not modelled.
\<close>

definition stream_by_id_try ::
  "database \<Rightarrow> filesystem \<Rightarrow> int \<Rightarrow> string option \<Rightarrow> py_exception + response" where
  "stream_by_id_try db fs video_id range_header =
     (if sql_unterminated sql_select_file_path then Inl OperationalError
      else
        (case find (\<lambda>r. int (v_id r) = video_id) (videos db) of
           None \<Rightarrow> Inl (HTTPException 404)
         | Some r \<Rightarrow>
             (case v_file_path r of
                None \<Rightarrow> Inl (HTTPException 404)
              | Some video_path \<Rightarrow>
                  if video_path = [] then Inl (HTTPException 404)
                  else if fs video_path = None then Inl (HTTPException 404)
                  else stream_video fs video_path range_header)))"

definition stream_by_id ::
  "database \<Rightarrow> filesystem \<Rightarrow> int \<Rightarrow> string option \<Rightarrow> py_exception + response" where
  "stream_by_id db fs video_id range_header =
     except_500 (stream_by_id_try db fs video_id range_header)"

section \<open>Predicates of the claims and concrete inputs\<close>

text \<open>
  The conditions that the claims name (\<open>short_by_shape\<close>, \<open>is_client_error\<close>,
  \<open>entry_well_formed\<close>, \<open>entry_succeeds\<close>, \<open>linked_items\<close>) and the concrete files,
  catalogs, records and extractors at which the theorems are instantiated.
  \<open>entry_succeeds\<close> holds when the extractor fails at neither stage for the URL;
  \<open>entry_well_formed\<close> holds when no statement of \<open>download_video\<close> outside its two
  \<open>try\<close> blocks raises for the URL (the output template is built, and the downloaded
  metadata has an id and a title);
  \<open>linked_items\<close> pairs the results with their indices, counted from \<open>idx\<close>, and
  gives the playlist item of each successful one.
  \<open>clip\<close> is a record that carries the key \<open>web_page_url\<close>; \<open>metadata\<close>,
  \<open>short_record\<close> and \<open>live_record\<close> are records as the extractor builds them, with
  the URL under \<open>webpage_url\<close>; \<open>live_record\<close> has the duration \<open>None\<close> that the
  extractor gives when it does not know it. \<open>catalog_3\<close> is \<open>catalog_0\<close> after the
  download of such a video.
\<close>

definition file_1000 :: "byte list" where
  "file_1000 = map of_nat [0..<1000]"

definition short_by_shape :: "info \<Rightarrow> bool" where
  "short_by_shape info \<longleftrightarrow>
     (case (dict_get (info_duration info), dict_get (info_width info),
            dict_get (info_height info)) of
        (Some d, Some w, Some h) \<Rightarrow> d \<noteq> 0 \<and> d \<le> 60 \<and> w \<noteq> 0 \<and> h \<noteq> 0 \<and> h > w
      | _ \<Rightarrow> False)"

definition clip :: "int entry \<Rightarrow> int entry \<Rightarrow> int entry \<Rightarrow> string entry \<Rightarrow> info" where
  "clip d w h u =
     \<lparr>info_id = Val ''abc123'', info_title = Val ''A clip'', info_uploader = Val ''Someone'',
      info_upload_date = Val ''20240101'', info_duration = d, info_description = Null,
      info_view_count = Val 10, info_thumbnail = Absent, info_width = w, info_height = h,
      info_webpage_url = Absent, info_web_page_url = u\<rparr>"

definition short_record :: info where
  "short_record =
     (clip (Val 120) (Val 720) (Val 1280) Absent)
       \<lparr>info_webpage_url := Val ''https://www.youtube.com/shorts/abc123''\<rparr>"

definition video ::
  "nat \<Rightarrow> string \<Rightarrow> string \<Rightarrow> int option \<Rightarrow> string option \<Rightarrow> string option \<Rightarrow> video_row" where
  "video i vid title short path st =
     \<lparr>v_id = i, v_video_id = vid, v_title = title, v_uploader = Some ''Someone'',
      v_upload_date = Some ''20240101'', v_duration = Some 45, v_description = None,
      v_view_count = Some 10, v_is_short = short, v_file_path = path,
      v_thumbnail_path = None, v_download_date = Some ''2024-01-02T03:04:05'',
      v_original_url = Some ''https://www.youtube.com/watch?v=abc123'', v_status = st\<rparr>"

definition catalog_0 :: database where
  "catalog_0 =
     \<lparr>videos = [video 1 ''aaa'' ''A clip'' (Some 1) (Some ''media/shorts/a.mp4'') (Some ''completed''),
                video 2 ''bbb'' ''B clip'' (Some 1) None (Some ''pending''),
                video 3 ''ccc'' ''C film'' (Some 0) (Some ''media/videos/gone.mp4'') (Some ''completed'')],
      videos_seq = 3, tags = [], tags_seq = 0, playlists = [], playlists_seq = 0,
      playlist_items = []\<rparr>"

definition disk_0 :: filesystem where
  "disk_0 = [''media/shorts/a.mp4'' \<mapsto> file_1000]"

definition is_client_error :: "nat \<Rightarrow> bool" where
  "is_client_error code \<longleftrightarrow> 400 \<le> code \<and> code < 500"

definition record_a :: video_data where
  "record_a =
     \<lparr>vd_video_id = Val ''abc123'', vd_title = Val ''First title'',
      vd_uploader = Val ''Someone'', vd_upload_date = Val ''20240101'', vd_duration = Val 45,
      vd_description = Val ''first'', vd_view_count = Val 10, vd_is_short = Val (PyBool True),
      vd_file_path = Val ''media/shorts/Someone/First title.mp4'', vd_thumbnail_path = Null,
      vd_download_date = Val ''2024-01-02T03:04:05'',
      vd_original_url = Val ''https://www.youtube.com/shorts/abc123'',
      vd_status = Val ''completed''\<rparr>"

definition record_b :: video_data where
  "record_b =
     \<lparr>vd_video_id = Val ''abc123'', vd_title = Val ''Second title'',
      vd_uploader = Null, vd_upload_date = Val ''20240101'', vd_duration = Val 50,
      vd_description = Absent, vd_view_count = Val 12, vd_is_short = Absent,
      vd_file_path = Val ''media/videos/Unknown/Second title.mp4'', vd_thumbnail_path = Null,
      vd_download_date = Val ''2024-02-03T04:05:06'',
      vd_original_url = Val ''https://www.youtube.com/watch?v=abc123'',
      vd_status = Absent\<rparr>"

definition entry_well_formed :: "env \<Rightarrow> string \<Rightarrow> bool" where
  "entry_well_formed env url \<longleftrightarrow>
     (case ydl_probe env url of
        Inl message \<Rightarrow> True
      | Inr info \<Rightarrow>
          (case output_template env info of
             Inl e \<Rightarrow> False
           | Inr (is_short, template) \<Rightarrow>
               (case ydl_fetch env url template of
                  Inl message \<Rightarrow> True
                | Inr (info', downloaded_file) \<Rightarrow>
                    dict_get (info_id info') \<noteq> None
                    \<and> dict_get (info_title info') \<noteq> None)))"

definition entry_succeeds :: "env \<Rightarrow> string \<Rightarrow> bool" where
  "entry_succeeds env url \<longleftrightarrow>
     (case ydl_probe env url of
        Inl message \<Rightarrow> False
      | Inr info \<Rightarrow>
          (case output_template env info of
             Inl e \<Rightarrow> False
           | Inr (is_short, template) \<Rightarrow>
               (case ydl_fetch env url template of
                  Inl message \<Rightarrow> False
                | Inr (info', downloaded_file) \<Rightarrow> True)))"

definition linked_items :: "nat \<Rightarrow> nat \<Rightarrow> result list \<Rightarrow> playlist_item_row list" where
  "linked_items db_playlist_id idx rs =
     map (\<lambda>(i, r). \<lparr>pi_playlist_id = db_playlist_id, pi_videos_id = r_db_id r,
                     pi_position = i\<rparr>)
       (filter (\<lambda>(i, r). is_success r) (zip [idx..<idx + length rs] rs))"

definition watch :: "string \<Rightarrow> string" where
  "watch i = ''https://www.youtube.com/watch?v='' @ i"

definition metadata :: "string \<Rightarrow> string entry \<Rightarrow> info" where
  "metadata url uploader =
     (clip (Val 45) (Val 1280) (Val 720) Absent)
       \<lparr>info_id := Val (drop 32 url), info_uploader := uploader,
        info_webpage_url := Val url\<rparr>"

definition entries_0 :: "playlist_entry list" where
  "entries_0 =
     [\<lparr>e_url = Val (watch ''v1''), e_id = Val ''v1'', e_title = Val ''One''\<rparr>,
      \<lparr>e_url = Absent, e_id = Val ''v2'', e_title = Val ''Two''\<rparr>,
      \<lparr>e_url = Null, e_id = Val ''v3'', e_title = Val ''Three''\<rparr>]"

definition listing_0 :: playlist_info where
  "listing_0 =
     \<lparr>pl_title = Val ''My list'', pl_id = Val ''PL1'', pl_description = Absent,
      pl_entries = Val entries_0\<rparr>"

definition env_of :: "(string \<Rightarrow> string + info) \<Rightarrow> (string \<Rightarrow> bool) \<Rightarrow> env" where
  "env_of probe dirs =
     \<lparr>base_path = ''./youtube_media'', now = ''2024-01-02T03:04:05'',
      mkdir = dirs,
      ydl_probe = probe,
      ydl_fetch = (\<lambda>url template. Inr (metadata url (Val ''Someone''), template)),
      ydl_listing = (\<lambda>url. Inr listing_0)\<rparr>"

definition env_0 :: env where
  "env_0 = env_of (\<lambda>url. if url = watch ''v2'' then Inl ''ERROR: Video unavailable''
                          else Inr (metadata url (Val ''Someone'')))
                  (\<lambda>dir. True)"

definition env_1 :: env where
  "env_1 = env_of (\<lambda>url. Inr (metadata url (if url = watch ''v2'' then Null
                                               else Val ''Someone'')))
                  (\<lambda>dir. True)"

definition env_2 :: env where
  "env_2 = env_of (\<lambda>url. Inr (metadata url (if url = watch ''v2'' then Val ''Locked''
                                               else Val ''Someone'')))
                  (\<lambda>dir. dir \<noteq> ''youtube_media/videos/Locked'')"

definition live_record :: "string \<Rightarrow> info" where
  "live_record url =
     (metadata url (Val ''Someone''))
       \<lparr>info_duration := Null, info_width := Val 720, info_height := Val 1280\<rparr>"

definition env_3 :: env where
  "env_3 = (env_of (\<lambda>url. Inr (live_record url)) (\<lambda>dir. True))
             \<lparr>ydl_fetch := (\<lambda>url template. Inr (live_record url, template))\<rparr>"

definition catalog_3 :: database where
  "catalog_3 = fst (download_video env_3 catalog_0 (watch ''v1'') None None)"

section \<open>Range requests: decimal literals, header parsing and the read loop\<close>

lemma is_digit_digit_char: "d < 10 \<Longrightarrow> is_digit (digit_char d)"
  by (simp add: is_digit_def digit_char_def)

lemma digit_val_digit_char: "d < 10 \<Longrightarrow> digit_val (digit_char d) = d"
  by (simp add: digit_val_def digit_char_def)

lemma str_nat_digits: "c \<in> set (str_nat n) \<Longrightarrow> is_digit c"
proof (induction n rule: str_nat.induct)
  case (1 n)
  show ?case
  proof (cases "n < 10")
    case True
    with 1(2) show ?thesis by (simp add: str_nat.simps [of n] is_digit_digit_char)
  next
    case False
    with 1 show ?thesis
      by (auto simp add: str_nat.simps [of n] is_digit_digit_char)
  qed
qed

lemma str_nat_not_Nil: "str_nat n \<noteq> []"
  by (simp add: str_nat.simps [of n])

lemma filter_digits_str_nat: "filter is_digit (str_nat n) = str_nat n"
  by (simp add: str_nat_digits)

lemma digits_value_str_nat: "digits_value (str_nat n) = n"
proof (induction n rule: str_nat.induct)
  case (1 n)
  show ?case
  proof (cases "n < 10")
    case True
    then show ?thesis
      by (simp add: str_nat.simps [of n] digits_value_def is_digit_digit_char digit_val_digit_char)
  next
    case False
    with 1 have "digits_value (str_nat (n div 10)) = n div 10" by simp
    with False show ?thesis
      by (simp add: str_nat.simps [of n] digits_value_def filter_digits_str_nat
           is_digit_digit_char digit_val_digit_char)
  qed
qed

lemma length_str_nat: "n < 10 ^ k \<Longrightarrow> 0 < k \<Longrightarrow> length (str_nat n) \<le> k"
proof (induction n arbitrary: k rule: str_nat.induct)
  case (1 n)
  show ?case
  proof (cases "n < 10")
    case True
    with 1(3) show ?thesis by (simp add: str_nat.simps [of n])
  next
    case False
    obtain j where k: "k = Suc j" using 1(3) by (cases k) auto
    from False 1(2) k have "0 < j" by (cases j) auto
    moreover from 1(2) k have "n div 10 < 10 ^ j"
      by (simp add: less_mult_imp_div_less mult.commute)
    ultimately have "length (str_nat (n div 10)) \<le> j" using 1(1) False by simp
    with False k show ?thesis by (simp add: str_nat.simps [of n])
  qed
qed


lemma str_nat_hd_digit: "is_digit (hd (str_nat n))"
  using str_nat_digits [of "hd (str_nat n)" n] str_nat_not_Nil [of n] by simp

lemma str_nat_last_digit: "is_digit (last (str_nat n))"
  using str_nat_digits [of "last (str_nat n)" n] str_nat_not_Nil [of n] by simp

lemma digit_not_space: "is_digit c \<Longrightarrow> \<not> is_space c"
  by (auto simp add: is_digit_def is_space_def)

lemma digit_not_special:
  "is_digit c \<Longrightarrow> c \<noteq> CHR ''-'' \<and> c \<noteq> CHR ''+'' \<and> c \<noteq> CHR ''_'' \<and> c \<noteq> CHR ''b''"
  by (auto simp add: is_digit_def)

lemma strip_space_digits:
  assumes "s \<noteq> []" and "\<not> is_space (hd s)" and "\<not> is_space (last s)"
  shows "strip_space s = s"
proof -
  from assms(2) have a: "dropWhile is_space s = s"
    by (simp add: dropWhile_eq_self_iff)
  from assms(1,3) have "dropWhile is_space (rev s) = rev s"
    by (simp add: dropWhile_eq_self_iff hd_rev)
  with a show ?thesis by (simp add: strip_space_def)
qed

lemma no_double_underscore_digits:
  "\<forall>c \<in> set u. c \<noteq> CHR ''_'' \<Longrightarrow> no_double_underscore u"
  by (induction u rule: no_double_underscore.induct) auto

lemma valid_digits_str_nat: "valid_digits (str_nat n)"
  unfolding valid_digits_def
  using str_nat_not_Nil [of n] str_nat_hd_digit [of n] str_nat_last_digit [of n]
    str_nat_digits [of _ n] digit_not_special
  by (auto intro!: no_double_underscore_digits)

lemma py_int_str_nat:
  assumes "n < 10 ^ max_str_digits"
  shows "py_int (str_nat n) = Inr (int n)"
proof -
  have s: "strip_space (str_nat n) = str_nat n"
    by (rule strip_space_digits)
       (simp_all add: str_nat_not_Nil digit_not_space str_nat_hd_digit str_nat_last_digit)
  have h: "hd (str_nat n) \<noteq> CHR ''-''" "hd (str_nat n) \<noteq> CHR ''+''"
    using digit_not_special [OF str_nat_hd_digit [of n]] by simp_all
  have "0 < max_str_digits" by (simp add: max_str_digits_def)
  with assms have l: "length (str_nat n) \<le> max_str_digits"
    by (rule length_str_nat)
  show ?thesis
    by (simp add: py_int_def s h l valid_digits_str_nat filter_digits_str_nat
          digits_value_str_nat)
qed

lemma py_replace_absent:
  "hd old \<notin> set s \<Longrightarrow> old \<noteq> [] \<Longrightarrow> py_replace old new s = s"
proof (induction s)
  case Nil
  then show ?case by (simp add: py_replace.simps [of old new "[]"])
next
  case (Cons c s)
  from Cons.prems have "take (length old) (c # s) \<noteq> old"
    by (cases old) auto
  with Cons show ?case
    by (simp add: py_replace.simps [of old new "c # s"])
qed

lemma py_replace_prefix:
  "old \<noteq> [] \<Longrightarrow> py_replace old new (old @ s) = new @ py_replace old new s"
  by (simp add: py_replace.simps [of old new "old @ s"])

lemma py_split_absent: "sep \<notin> set s \<Longrightarrow> py_split sep s = [s]"
  by (induction s) auto

lemma py_split_two:
  "sep \<notin> set a \<Longrightarrow> sep \<notin> set b \<Longrightarrow> py_split sep (a @ sep # b) = [a, b]"
  by (induction a) (auto simp add: py_split_absent)

lemma concat_iterfile_loop:
  "concat (iterfile_loop content pos remaining) = take (nat remaining) (drop pos content)"
proof (induction content pos remaining rule: iterfile_loop.induct)
  case (1 content pos remaining)
  show ?case
  proof (cases "remaining > 0")
    case False
    then show ?thesis by (simp add: iterfile_loop.simps [of content pos remaining])
  next
    case pos_rem: True
    define chunk where "chunk = f_read content pos (nat (min 8192 remaining))"
    define k where "k = length chunk"
    show ?thesis
    proof (cases "chunk = []")
      case True
      then have "drop pos content = []"
        using pos_rem by (auto simp add: chunk_def f_read_def min_def split: if_splits)
      with True pos_rem show ?thesis
        by (simp add: iterfile_loop.simps [of content pos remaining] chunk_def [symmetric])
    next
      case False
      from 1 [OF pos_rem chunk_def False]
      have ih: "concat (iterfile_loop content (pos + k) (remaining - int k))
          = take (nat (remaining - int k)) (drop (pos + k) content)"
        by (simp add: k_def)
      have len: "k \<le> nat remaining"
        using pos_rem by (simp add: k_def chunk_def f_read_def)
      have ch: "take k (drop pos content) = chunk"
        by (simp add: k_def chunk_def f_read_def min_def)
      have d: "nat remaining - k = nat (remaining - int k)"
        using len by linarith
      have "take (nat remaining) (drop pos content)
          = take (k + (nat remaining - k)) (drop pos content)"
        using len by simp
      also have "\<dots> = take k (drop pos content)
            @ take (nat remaining - k) (drop k (drop pos content))"
        by (rule take_add)
      also have "\<dots> = chunk @ take (nat (remaining - int k)) (drop (pos + k) content)"
        by (simp only: ch d drop_drop add.commute)
      finally have t: "take (nat remaining) (drop pos content)
          = chunk @ take (nat (remaining - int k)) (drop (pos + k) content)" .
      have "iterfile_loop content pos remaining
          = chunk # iterfile_loop content (pos + k) (remaining - int k)"
        using False pos_rem
        by (simp add: iterfile_loop.simps [of content pos remaining] chunk_def [symmetric] k_def)
      with ih t show ?thesis by simp
    qed
  qed
qed

lemma str_nat_no_dash: "CHR ''-'' \<notin> set (str_nat n)"
  using str_nat_digits [of "CHR ''-''" n] digit_not_special [of "CHR ''-''"] by auto

lemma str_nat_no_b: "CHR ''b'' \<notin> set (str_nat n)"
  using str_nat_digits [of "CHR ''b''" n] digit_not_special [of "CHR ''b''"] by auto

lemma range_match_closed:
  "py_split CHR ''-'' (py_replace ''bytes='' [] (''bytes='' @ str_nat a @ ''-'' @ str_nat b))
     = [str_nat a, str_nat b]"
proof -
  have "py_replace ''bytes='' [] (''bytes='' @ str_nat a @ ''-'' @ str_nat b)
      = py_replace ''bytes='' [] (str_nat a @ ''-'' @ str_nat b)"
    using py_replace_prefix [of "''bytes=''" "[]" "str_nat a @ ''-'' @ str_nat b"] by simp
  also have "\<dots> = str_nat a @ ''-'' @ str_nat b"
    by (rule py_replace_absent) (simp_all add: str_nat_no_b)
  finally show ?thesis
    using py_split_two [of "CHR ''-''" "str_nat a" "str_nat b"]
    by (simp add: str_nat_no_dash)
qed

lemma range_match_open:
  "py_split CHR ''-'' (py_replace ''bytes='' [] (''bytes='' @ str_nat a @ ''-''))
     = [str_nat a, []]"
proof -
  have "py_replace ''bytes='' [] (''bytes='' @ str_nat a @ ''-'')
      = py_replace ''bytes='' [] (str_nat a @ ''-'')"
    using py_replace_prefix [of "''bytes=''" "[]" "str_nat a @ ''-''"] by simp
  also have "\<dots> = str_nat a @ ''-''"
    by (rule py_replace_absent) (simp_all add: str_nat_no_b)
  finally show ?thesis
    using py_split_two [of "CHR ''-''" "str_nat a" "[]"]
    by (simp add: str_nat_no_dash)
qed

lemma off_t_digits: "n < 2 ^ 63 \<Longrightarrow> (n::nat) < 10 ^ max_str_digits"
proof -
  assume "n < 2 ^ 63"
  also have "(2::nat) ^ 63 \<le> 10 ^ 63" by (rule power_mono) simp_all
  also have "(10::nat) ^ 63 \<le> 10 ^ max_str_digits"
    by (rule power_increasing) (simp_all add: max_str_digits_def)
  finally show ?thesis .
qed

lemma py_str_nat: "n < 10 ^ max_str_digits \<Longrightarrow> py_str (int n) = Inr (str_nat n)"
proof -
  assume "n < 10 ^ max_str_digits"
  moreover have "0 < max_str_digits" by (simp add: max_str_digits_def)
  ultimately have "length (str_nat n) \<le> max_str_digits" by (rule length_str_nat)
  then show ?thesis by (simp add: py_str_def)
qed

lemma stream_video_try_range:
  assumes "fs file_path = Some content" and "h \<noteq> []"
    and "py_split CHR ''-'' (py_replace ''bytes='' [] h) = [a, b]"
    and "py_int a = Inr start"
    and "(b \<noteq> [] \<and> py_int b = Inr end) \<or> (b = [] \<and> end = int (length content) - 1)"
    and "py_str start = Inr start_text" and "py_str end = Inr end_text"
    and "py_str (int (length content)) = Inr size_text"
    and "py_str (end - start + 1) = Inr chunk_text"
  shows "stream_video_try fs file_path (Some h)
           = Inr (StreamingResponse (iterfile content start (end - start + 1)) 206
                    [(''Content-Range'',
                        ''bytes '' @ start_text @ ''-'' @ end_text @ ''/'' @ size_text),
                     (''Accept-Ranges'', ''bytes''),
                     (''Content-Length'', chunk_text),
                     (''Content-Type'', ''video/mp4'')])"
  using assms by (auto simp add: stream_video_try_def Let_def)

lemma streamed_slice:
  assumes "start < 2 ^ 63"
  shows "StreamingResponse (iterfile content (int start) (int n)) code hs
     = \<lparr>status_code = code, headers = hs, body = Inr (take n (drop start content))\<rparr>"
proof -
  from assms have "int start < 2 ^ 63"
    by (metis of_nat_less_iff of_nat_numeral of_nat_power)
  then show ?thesis
    by (simp add: StreamingResponse_def iterfile_def concat_iterfile_loop)
qed

text \<open>
  Claim C1. For a file of \<open>N\<close> bytes on disk (a size below \<open>2^63\<close>, as every file size is)
  and a header \<open>bytes=start-end\<close> with \<open>start \<le> end < N\<close> in decimal, \<open>stream_video\<close>
  answers 206 with \<open>Content-Range: bytes start-end/N\<close>, \<open>Content-Length\<close> equal to
  \<open>end - start + 1\<close>, and exactly the bytes from offset \<open>start\<close> through \<open>end\<close>; with the
  end left out (\<open>bytes=start-\<close>) the end is \<open>N - 1\<close>.
\<close>

theorem stream_video_range:
  assumes "fs file_path = Some content"
    and "length content < 2 ^ 63"
    and "start \<le> end" and "end < length content"
  shows "stream_video fs file_path (Some (''bytes='' @ str_nat start @ ''-'' @ str_nat end))
           = Inr \<lparr>status_code = 206,
                  headers = [(''Content-Range'',
                                ''bytes '' @ str_nat start @ ''-'' @ str_nat end @ ''/''
                                  @ str_nat (length content)),
                             (''Accept-Ranges'', ''bytes''),
                             (''Content-Length'', str_nat (end - start + 1)),
                             (''Content-Type'', ''video/mp4'')],
                  body = Inr (take (end - start + 1) (drop start content))\<rparr>
       \<and> stream_video fs file_path (Some (''bytes='' @ str_nat start @ ''-''))
           = Inr \<lparr>status_code = 206,
                  headers = [(''Content-Range'',
                                ''bytes '' @ str_nat start @ ''-''
                                  @ str_nat (length content - 1) @ ''/''
                                  @ str_nat (length content)),
                             (''Accept-Ranges'', ''bytes''),
                             (''Content-Length'', str_nat (length content - start)),
                             (''Content-Type'', ''video/mp4'')],
                  body = Inr (drop start content)\<rparr>"
proof -
  have b: "start < 2 ^ 63" "end < 2 ^ 63" "end - start + 1 < 2 ^ 63"
    "length content - 1 < 2 ^ 63" "length content - start < 2 ^ 63"
    using assms(2,3,4) by simp_all
  have s: "py_int (str_nat start) = Inr (int start)"
    by (intro py_int_str_nat off_t_digits b)
  have e: "py_int (str_nat end) = Inr (int end)"
    by (intro py_int_str_nat off_t_digits b)
  have ps: "py_str (int start) = Inr (str_nat start)"
    "py_str (int end) = Inr (str_nat end)"
    "py_str (int (length content)) = Inr (str_nat (length content))"
    "py_str (int (end - start + 1)) = Inr (str_nat (end - start + 1))"
    "py_str (int (length content - 1)) = Inr (str_nat (length content - 1))"
    "py_str (int (length content - start)) = Inr (str_nat (length content - start))"
    by (intro py_str_nat off_t_digits b assms(2))+
  have l: "int (length content - 1) = int (length content) - 1"
    using assms(4) by (simp add: of_nat_diff)
  have c1: "int end - int start + 1 = int (end - start + 1)"
    using assms(3) by simp
  have c2: "int (length content - 1) - int start + 1 = int (length content - start)"
    using assms(3,4) by (simp add: of_nat_diff)
  have "stream_video_try fs file_path (Some (''bytes='' @ str_nat start @ ''-'' @ str_nat end))
      = Inr (StreamingResponse (iterfile content (int start) (int end - int start + 1)) 206
               [(''Content-Range'',
                   ''bytes '' @ str_nat start @ ''-'' @ str_nat end @ ''/''
                     @ str_nat (length content)),
                (''Accept-Ranges'', ''bytes''),
                (''Content-Length'', str_nat (end - start + 1)),
                (''Content-Type'', ''video/mp4'')])"
  proof (rule stream_video_try_range)
    show "fs file_path = Some content" by (rule assms(1))
    show "''bytes='' @ str_nat start @ ''-'' @ str_nat end \<noteq> []" by simp
    show "py_split CHR ''-''
            (py_replace ''bytes='' [] (''bytes='' @ str_nat start @ ''-'' @ str_nat end))
          = [str_nat start, str_nat end]"
      by (rule range_match_closed)
    show "py_int (str_nat start) = Inr (int start)" by (rule s)
    show "(str_nat end \<noteq> [] \<and> py_int (str_nat end) = Inr (int end))
          \<or> (str_nat end = [] \<and> int end = int (length content) - 1)"
      using e by (simp add: str_nat_not_Nil)
    show "py_str (int start) = Inr (str_nat start)" by (rule ps(1))
    show "py_str (int end) = Inr (str_nat end)" by (rule ps(2))
    show "py_str (int (length content)) = Inr (str_nat (length content))" by (rule ps(3))
    show "py_str (int end - int start + 1) = Inr (str_nat (end - start + 1))"
      unfolding c1 by (rule ps(4))
  qed
  then have closed:
    "stream_video fs file_path (Some (''bytes='' @ str_nat start @ ''-'' @ str_nat end))
       = Inr \<lparr>status_code = 206,
              headers = [(''Content-Range'',
                            ''bytes '' @ str_nat start @ ''-'' @ str_nat end @ ''/''
                              @ str_nat (length content)),
                         (''Accept-Ranges'', ''bytes''),
                         (''Content-Length'', str_nat (end - start + 1)),
                         (''Content-Type'', ''video/mp4'')],
              body = Inr (take (end - start + 1) (drop start content))\<rparr>"
    by (simp only: stream_video_def except_500_def sum.case c1 streamed_slice [OF b(1)])
  have "stream_video_try fs file_path (Some (''bytes='' @ str_nat start @ ''-''))
      = Inr (StreamingResponse
               (iterfile content (int start) (int (length content - 1) - int start + 1)) 206
               [(''Content-Range'',
                   ''bytes '' @ str_nat start @ ''-'' @ str_nat (length content - 1)
                     @ ''/'' @ str_nat (length content)),
                (''Accept-Ranges'', ''bytes''),
                (''Content-Length'', str_nat (length content - start)),
                (''Content-Type'', ''video/mp4'')])"
  proof (rule stream_video_try_range)
    show "fs file_path = Some content" by (rule assms(1))
    show "''bytes='' @ str_nat start @ ''-'' \<noteq> []" by simp
    show "py_split CHR ''-'' (py_replace ''bytes='' [] (''bytes='' @ str_nat start @ ''-''))
          = [str_nat start, []]"
      by (rule range_match_open)
    show "py_int (str_nat start) = Inr (int start)" by (rule s)
    show "(([]::string) \<noteq> [] \<and> py_int [] = Inr (int (length content - 1)))
          \<or> (([]::string) = [] \<and> int (length content - 1) = int (length content) - 1)"
      using l by simp
    show "py_str (int start) = Inr (str_nat start)" by (rule ps(1))
    show "py_str (int (length content - 1)) = Inr (str_nat (length content - 1))"
      by (rule ps(5))
    show "py_str (int (length content)) = Inr (str_nat (length content))" by (rule ps(3))
    show "py_str (int (length content - 1) - int start + 1)
          = Inr (str_nat (length content - start))"
      unfolding c2 by (rule ps(6))
  qed
  then have "stream_video fs file_path (Some (''bytes='' @ str_nat start @ ''-''))
       = Inr \<lparr>status_code = 206,
              headers = [(''Content-Range'',
                            ''bytes '' @ str_nat start @ ''-''
                              @ str_nat (length content - 1) @ ''/''
                              @ str_nat (length content)),
                         (''Accept-Ranges'', ''bytes''),
                         (''Content-Length'', str_nat (length content - start)),
                         (''Content-Type'', ''video/mp4'')],
              body = Inr (take (length content - start) (drop start content))\<rparr>"
    by (simp only: stream_video_def except_500_def sum.case c2 streamed_slice [OF b(1)])
  then show ?thesis using closed by simp
qed

lemma length_file_1000: "length file_1000 = 1000"
  by (simp add: file_1000_def)

lemma digit_char_simps:
  "digit_char 0 = CHR ''0''" "digit_char 1 = CHR ''1''" "digit_char (Suc 0) = CHR ''1''"
  "digit_char 2 = CHR ''2''" "digit_char 3 = CHR ''3''" "digit_char 4 = CHR ''4''"
  "digit_char 5 = CHR ''5''" "digit_char 6 = CHR ''6''" "digit_char 7 = CHR ''7''"
  "digit_char 8 = CHR ''8''" "digit_char 9 = CHR ''9''"
  by code_simp+

lemma str_nat_examples:
  "str_nat 100 = ''100''" "str_nat 199 = ''199''" "str_nat 999 = ''999''"
  "str_nat 900 = ''900''" "str_nat 1000 = ''1000''"
  by (simp_all add: str_nat.simps digit_char_simps)

theorem stream_video_range_witness:
  "stream_video [''media/clip.mp4'' \<mapsto> file_1000] ''media/clip.mp4'' (Some ''bytes=100-199'')
     = Inr \<lparr>status_code = 206,
            headers = [(''Content-Range'', ''bytes 100-199/1000''),
                       (''Accept-Ranges'', ''bytes''),
                       (''Content-Length'', ''100''),
                       (''Content-Type'', ''video/mp4'')],
            body = Inr (take 100 (drop 100 file_1000))\<rparr>
   \<and> stream_video [''media/clip.mp4'' \<mapsto> file_1000] ''media/clip.mp4'' (Some ''bytes=100-'')
     = Inr \<lparr>status_code = 206,
            headers = [(''Content-Range'', ''bytes 100-999/1000''),
                       (''Accept-Ranges'', ''bytes''),
                       (''Content-Length'', ''900''),
                       (''Content-Type'', ''video/mp4'')],
            body = Inr (drop 100 file_1000)\<rparr>"
  using stream_video_range [of "[''media/clip.mp4'' \<mapsto> file_1000]" "''media/clip.mp4''"
      file_1000 100 199]
  by (simp add: length_file_1000 str_nat_examples)

section \<open>Statement texts\<close>

lemma sql_texts_ok:
  "\<not> sql_unterminated sql_insert_video" "\<not> sql_unterminated sql_insert_tag"
  "\<not> sql_unterminated sql_select_completed" "\<not> sql_unterminated sql_select_completed_short"
  "\<not> sql_unterminated sql_insert_playlist" "\<not> sql_unterminated sql_select_playlist"
  "\<not> sql_unterminated sql_insert_playlist_item" "\<not> sql_unterminated sql_select_file_path"
  by (simp_all add: sql_unterminated_def sql_text_def is_quote_def sql_insert_video_def
        sql_insert_tag_def sql_select_completed_def sql_select_completed_short_def
        sql_insert_playlist_def sql_select_playlist_def sql_insert_playlist_item_def
        sql_select_file_path_def)

lemma sql_search_unterminated: "sql_unterminated sql_search"
  by (simp add: sql_unterminated_def sql_text_def is_quote_def sql_search_def)

section \<open>The classifier\<close>

lemma is_youtube_short_webpage_url:
  "is_youtube_short (info\<lparr>info_webpage_url := u\<rparr>) = is_youtube_short info"
  by (simp add: is_youtube_short_def)

text \<open>
  Claim C2 fails on the code. The extractor stores the source URL under \<open>webpage_url\<close>
  and the classifier reads \<open>web_page_url\<close>, so the URL never reaches the test for
  \<open>/shorts/\<close> (lemma \<open>is_youtube_short_webpage_url\<close>: the result does not depend on
  the URL). The record of a 120-second vertical video whose source URL is
  \<open>https://www.youtube.com/shorts/abc123\<close> is classified \<open>False\<close>, and \<open>download_video\<close>
  files it under \<open>videos\<close>.
\<close>

theorem is_youtube_short_misses_url_marker:
  "info_webpage_url short_record = Val ''https://www.youtube.com/shorts/abc123''
   \<and> py_in ''/shorts/'' ''https://www.youtube.com/shorts/abc123''
   \<and> is_youtube_short short_record = Inr (Some (PyBool False))
   \<and> output_template env_0 short_record
       = Inr (Some (PyBool False), ''youtube_media/videos/Someone/A clip.%(ext)s'')"
proof (intro conjI)
  show "info_webpage_url short_record = Val ''https://www.youtube.com/shorts/abc123''"
    by (simp add: short_record_def)
  show "py_in ''/shorts/'' ''https://www.youtube.com/shorts/abc123''" by simp
  show "is_youtube_short short_record = Inr (Some (PyBool False))" by code_simp
  show "output_template env_0 short_record
          = Inr (Some (PyBool False), ''youtube_media/videos/Someone/A clip.%(ext)s'')"
    by code_simp
qed

text \<open>
  The rule works as written only for a record that carries the key \<open>web_page_url\<close>:
  when the URL under that key contains \<open>/shorts/\<close>, the classifier returns \<open>True\<close>,
  whatever the duration, width and height are (absent, \<open>None\<close> or any integer).
\<close>

lemma is_youtube_short_url_marker:
  assumes "info_web_page_url info = Val url" and "py_in ''/shorts/'' url"
  shows "is_youtube_short info = Inr (Some (PyBool True))"
  using assms by (simp add: is_youtube_short_def Let_def py_or_def)

lemma is_youtube_short_url_marker_example:
  "is_youtube_short (clip (Val 3600) (Val 1920) (Val 1080)
         (Val ''https://www.youtube.com/shorts/abc123'')) = Inr (Some (PyBool True))
   \<and> is_youtube_short (clip Null Absent (Val 0)
         (Val ''https://www.youtube.com/shorts/abc123'')) = Inr (Some (PyBool True))"
proof -
  have m: "py_in ''/shorts/'' ''https://www.youtube.com/shorts/abc123''" by simp
  show ?thesis
    using m
      is_youtube_short_url_marker [of "clip (Val 3600) (Val 1920) (Val 1080)
         (Val ''https://www.youtube.com/shorts/abc123'')" "''https://www.youtube.com/shorts/abc123''"]
      is_youtube_short_url_marker [of "clip Null Absent (Val 0)
         (Val ''https://www.youtube.com/shorts/abc123'')" "''https://www.youtube.com/shorts/abc123''"]
    by (simp add: clip_def)
qed

text \<open>
  Claim C3 fails on the code. \<open>is_youtube_short\<close> is declared to return a \<open>bool\<close>, but
  \<open>duration and duration <= 60\<close> hands back the duration itself when it is \<open>None\<close> or
  \<open>0\<close>, and so does the function: for a record without the marker whose duration is
  \<open>None\<close> it returns \<open>None\<close> where the claim says false (with a vertical picture, and also
  with an unknown width), and for an absent duration it returns \<open>0\<close>. \<open>download_video\<close>
  stores the \<open>None\<close> as \<open>NULL\<close> in the column \<open>is_short\<close>, and the completed video is
  then listed neither with the filter \<open>is_short = True\<close> nor with the filter
  \<open>is_short = False\<close>; only the unfiltered listing has it.
\<close>

theorem is_youtube_short_returns_none:
  "is_youtube_short (live_record (watch ''v1'')) = Inr None
   \<and> is_youtube_short (clip Null Absent (Val 1280) Absent) = Inr None
   \<and> is_youtube_short (clip Absent (Val 720) (Val 1280) Absent) = Inr (Some (PyInt 0))
   \<and> map v_video_id (videos catalog_3) = [''aaa'', ''bbb'', ''ccc'', ''v1'']
   \<and> map v_status (videos catalog_3)
       = [Some ''completed'', Some ''pending'', Some ''completed'', Some ''completed'']
   \<and> map v_is_short (videos catalog_3) = [Some 1, Some 1, Some 0, None]
   \<and> get_all_videos catalog_3 (Some True) = get_all_videos catalog_0 (Some True)
   \<and> get_all_videos catalog_3 (Some False) = get_all_videos catalog_0 (Some False)
   \<and> map_sum id (map v_video_id) (get_all_videos catalog_3 None)
       = Inr [''aaa'', ''ccc'', ''v1'']"
proof (intro conjI)
  show "is_youtube_short (live_record (watch ''v1'')) = Inr None" by code_simp
  show "is_youtube_short (clip Null Absent (Val 1280) Absent) = Inr None" by code_simp
  show "is_youtube_short (clip Absent (Val 720) (Val 1280) Absent) = Inr (Some (PyInt 0))"
    by code_simp
  show "map v_video_id (videos catalog_3) = [''aaa'', ''bbb'', ''ccc'', ''v1'']" by code_simp
  show "map v_status (videos catalog_3)
          = [Some ''completed'', Some ''pending'', Some ''completed'', Some ''completed'']"
    by code_simp
  show "map v_is_short (videos catalog_3) = [Some 1, Some 1, Some 0, None]" by code_simp
  show "get_all_videos catalog_3 (Some True) = get_all_videos catalog_0 (Some True)"
    by code_simp
  show "get_all_videos catalog_3 (Some False) = get_all_videos catalog_0 (Some False)"
    by code_simp
  show "map_sum id (map v_video_id) (get_all_videos catalog_3 None)
          = Inr [''aaa'', ''ccc'', ''v1'']"
    by code_simp
qed

text \<open>
  When the classifier does return a boolean for a record without the marker (the key
  \<open>web_page_url\<close> is absent, or its URL does not contain \<open>/shorts/\<close>), the result is
  \<open>True\<close> exactly when the duration is nonzero and at most 60 and width and height are
  both known and nonzero with the height greater than the width (\<open>short_by_shape\<close>); in
  every other case the result is falsy: \<open>False\<close>, or the duration \<open>0\<close> or \<open>None\<close>.
\<close>

lemma is_youtube_short_without_marker:
  assumes "info_web_page_url info = Absent
           \<or> (\<exists>url. info_web_page_url info = Val url \<and> \<not> py_in ''/shorts/'' url)"
  shows "\<exists>v. is_youtube_short info = Inr v
           \<and> (v = Some (PyBool True) \<longleftrightarrow> short_by_shape info)
           \<and> (truthy v \<longleftrightarrow> short_by_shape info)"
proof -
  have u: "\<exists>url. dict_get_default (info_web_page_url info) [] = Some url
              \<and> \<not> py_in ''/shorts/'' url"
    using assms by auto
  then obtain url where url: "dict_get_default (info_web_page_url info) [] = Some url"
    and nm: "\<not> py_in ''/shorts/'' url" by blast
  show ?thesis
    by (cases "info_duration info"; cases "info_width info"; cases "info_height info")
       (auto simp add: is_youtube_short_def Let_def py_or_def py_and_def short_by_shape_def
          url nm)
qed

lemma is_youtube_short_without_marker_example:
  "is_youtube_short (clip (Val 45) (Val 720) (Val 1280) (Val ''https://www.youtube.com/watch?v=abc123''))
     = Inr (Some (PyBool True))
   \<and> is_youtube_short (clip (Val 45) (Val 1280) (Val 720) (Val ''https://www.youtube.com/watch?v=abc123''))
     = Inr (Some (PyBool False))
   \<and> is_youtube_short (clip (Val 120) (Val 720) (Val 1280) Absent)
     = Inr (Some (PyBool False))"
  by (simp add: clip_def is_youtube_short_def Let_def py_or_def py_and_def)

section \<open>Listing and search\<close>

text \<open>
  Claim C7. \<open>get_all_videos\<close> returns normally, and a row is in its result exactly when
  it is a row of the catalog whose status is \<open>completed\<close> and, if the short filter is
  given, whose \<open>is_short\<close> flag equals the filter; so no pending or error row is ever
  listed.
\<close>

theorem get_all_videos_completed_only:
  "\<exists>rows. get_all_videos db is_short = Inr rows
     \<and> (\<forall>r. r \<in> set rows \<longleftrightarrow>
           r \<in> set (videos db) \<and> v_status r = Some ''completed''
           \<and> (\<forall>b. is_short = Some b \<longrightarrow> v_is_short r = Some (if b then 1 else 0)))
     \<and> (\<forall>r \<in> set rows. v_status r \<noteq> Some ''pending'' \<and> v_status r \<noteq> Some ''error'')"
  by (cases is_short) (auto simp add: get_all_videos_def sql_texts_ok)

theorem get_all_videos_completed_only_witness:
  "get_all_videos catalog_0 (Some True)
     = Inr [video 1 ''aaa'' ''A clip'' (Some 1) (Some ''media/shorts/a.mp4'') (Some ''completed'')]
   \<and> get_all_videos catalog_0 None
     = Inr [video 1 ''aaa'' ''A clip'' (Some 1) (Some ''media/shorts/a.mp4'') (Some ''completed''),
            video 3 ''ccc'' ''C film'' (Some 0) (Some ''media/videos/gone.mp4'') (Some ''completed'')]
   \<and> (\<exists>rows. get_all_videos catalog_0 (Some True) = Inr rows
         \<and> video 2 ''bbb'' ''B clip'' (Some 1) None (Some ''pending'') \<notin> set rows)"
proof -
  have a: "get_all_videos catalog_0 (Some True)
     = Inr [video 1 ''aaa'' ''A clip'' (Some 1) (Some ''media/shorts/a.mp4'') (Some ''completed'')]"
    by (simp add: get_all_videos_def sql_texts_ok catalog_0_def video_def)
  have b: "get_all_videos catalog_0 None
     = Inr [video 1 ''aaa'' ''A clip'' (Some 1) (Some ''media/shorts/a.mp4'') (Some ''completed''),
            video 3 ''ccc'' ''C film'' (Some 0) (Some ''media/videos/gone.mp4'') (Some ''completed'')]"
    by (simp add: get_all_videos_def sql_texts_ok catalog_0_def video_def)
  have p: "v_status (video 2 ''bbb'' ''B clip'' (Some 1) None (Some ''pending'')) = Some ''pending''"
    by (simp add: video_def)
  from get_all_videos_completed_only [of catalog_0 "Some True"] p
  have "\<exists>rows. get_all_videos catalog_0 (Some True) = Inr rows
         \<and> video 2 ''bbb'' ''B clip'' (Some 1) None (Some ''pending'') \<notin> set rows"
    by metis
  with a b show ?thesis by simp
qed

text \<open>
  Claim C6 fails on the code: the statement text of \<open>search_videos\<close> ends inside the
  string literal \<open>'completed\<close>, so for every catalog and every query the call raises
  \<open>OperationalError\<close> and returns no rows.
\<close>

theorem search_videos_raises: "search_videos db query = Inl OperationalError"
  by (simp add: search_videos_def sql_search_unterminated)

section \<open>Status codes of the streaming handlers\<close>

lemma stream_by_id_unknown:
  assumes "find (\<lambda>r. int (v_id r) = video_id) (videos db) = None"
  shows "stream_by_id db fs video_id range_header = Inl (HTTPException 500)"
  using assms by (simp add: stream_by_id_def stream_by_id_try_def except_500_def sql_texts_ok)

lemma stream_by_id_missing_file:
  assumes "find (\<lambda>r. int (v_id r) = video_id) (videos db) = Some r"
    and "v_file_path r = Some video_path" and "fs video_path = None"
  shows "stream_by_id db fs video_id range_header = Inl (HTTPException 500)"
  using assms by (simp add: stream_by_id_def stream_by_id_try_def except_500_def sql_texts_ok)

lemma stream_video_ok_status:
  "stream_video fs file_path range_header = Inr r \<Longrightarrow> status_code r \<noteq> 404"
  by (auto simp add: stream_video_def stream_video_try_def except_500_def Let_def
        FileResponse_def StreamingResponse_def split: option.splits sum.splits if_splits)

lemma stream_by_id_never_404: "http_status (stream_by_id db fs video_id range_header) \<noteq> 404"
proof (cases "stream_by_id_try db fs video_id range_header")
  case (Inl e)
  then show ?thesis by (simp add: stream_by_id_def except_500_def)
next
  case (Inr r)
  then have "\<exists>p. stream_video fs p range_header = Inr r"
    by (auto simp add: stream_by_id_try_def split: if_splits option.splits)
  then have "status_code r \<noteq> 404" using stream_video_ok_status by blast
  with Inr show ?thesis by (auto simp add: stream_by_id_def except_500_def)
qed

text \<open>
  Claim C8 fails on the code: the 404 that \<open>stream_by_id\<close> raises for an unknown id
  (here id 99) and for a row whose file is not on disk (here id 3) is raised inside the
  \<open>try\<close> block and leaves the handler as a 500.
\<close>

theorem stream_by_id_not_found_is_500:
  "stream_by_id catalog_0 disk_0 99 None = Inl (HTTPException 500)
   \<and> stream_by_id catalog_0 disk_0 3 None = Inl (HTTPException 500)
   \<and> http_status (stream_by_id catalog_0 disk_0 99 None) = 500
   \<and> http_status (stream_by_id catalog_0 disk_0 3 None) = 500"
  by (simp add: stream_by_id_def stream_by_id_try_def except_500_def sql_texts_ok
        catalog_0_def disk_0_def video_def)

lemma stream_video_status:
  "range_header \<noteq> Some []
     \<Longrightarrow> http_status (stream_video fs file_path range_header) \<in> {200, 206, 500}"
  by (auto simp add: stream_video_def stream_video_try_def except_500_def Let_def
        FileResponse_def StreamingResponse_def split: option.splits sum.splits)

lemma stream_video_try_unparsed:
  assumes "fs file_path = Some content" and "h \<noteq> []"
    and "py_split CHR ''-'' (py_replace ''bytes='' [] h) = range_match"
    and "length range_match < 2
         \<or> py_int (hd range_match) = Inl ValueError
         \<or> (range_match ! 1 \<noteq> [] \<and> py_int (range_match ! 1) = Inl ValueError)"
  shows "\<exists>e. stream_video_try fs file_path (Some h) = Inl e"
  using assms
  by (auto simp add: stream_video_try_def Let_def split: sum.splits)

text \<open>
  Claim C9, amended. A request on an existing file with a non-empty range header that
  the handler cannot parse (after \<open>bytes=\<close> is deleted and the rest is split at \<open>-\<close>
  there are fewer than two fields, or the first field is not an integer literal, or the
  second field is neither empty nor an integer literal) is answered with status 500: not
  with a 400-class status and not with the full file.
\<close>

theorem stream_video_unparsed_range:
  assumes "fs file_path = Some content" and "h \<noteq> []"
    and "range_match = py_split CHR ''-'' (py_replace ''bytes='' [] h)"
    and "length range_match < 2
         \<or> py_int (hd range_match) = Inl ValueError
         \<or> (range_match ! 1 \<noteq> [] \<and> py_int (range_match ! 1) = Inl ValueError)"
  shows "stream_video fs file_path (Some h) = Inl (HTTPException 500)
         \<and> http_status (stream_video fs file_path (Some h)) = 500"
proof -
  have "\<exists>e. stream_video_try fs file_path (Some h) = Inl e"
    using assms(1,2) assms(3) [symmetric] assms(4) by (rule stream_video_try_unparsed)
  then show ?thesis by (auto simp add: stream_video_def except_500_def)
qed

lemma range_match_abc:
  "py_split CHR ''-'' (py_replace ''bytes='' [] ''bytes=abc-def'') = [''abc'', ''def'']"
  by (simp add: py_replace.simps)

lemma py_int_abc: "py_int ''abc'' = Inl ValueError"
  by (simp add: py_int_def strip_space_def is_space_def valid_digits_def is_digit_def)

text \<open>
  Claim C9 as stated fails: the header \<open>bytes=abc-def\<close> is not answered with a
  400-class status.
\<close>

theorem stream_video_malformed_range_counterexample:
  "\<not> is_client_error
       (http_status (stream_video disk_0 ''media/shorts/a.mp4'' (Some ''bytes=abc-def'')))"
proof -
  have f1: "disk_0 ''media/shorts/a.mp4'' = Some file_1000" by (simp add: disk_0_def)
  have f2: "''bytes=abc-def'' \<noteq> []" by simp
  have f4: "length [''abc'', ''def''] < 2
         \<or> py_int (hd [''abc'', ''def'']) = Inl ValueError
         \<or> ([''abc'', ''def''] ! 1 \<noteq> [] \<and> py_int ([''abc'', ''def''] ! 1) = Inl ValueError)"
    by (simp add: py_int_abc)
  have "\<exists>e. stream_video_try disk_0 ''media/shorts/a.mp4'' (Some ''bytes=abc-def'') = Inl e"
    using f1 f2 range_match_abc f4 by (rule stream_video_try_unparsed)
  then show ?thesis
    by (auto simp add: stream_video_def except_500_def is_client_error_def)
qed

theorem stream_video_unparsed_range_witness:
  "stream_video disk_0 ''media/shorts/a.mp4'' (Some ''bytes=abc-def'') = Inl (HTTPException 500)
   \<and> http_status (stream_video disk_0 ''media/shorts/a.mp4'' (Some ''bytes=abc-def'')) = 500"
proof -
  have f1: "disk_0 ''media/shorts/a.mp4'' = Some file_1000" by (simp add: disk_0_def)
  have f2: "''bytes=abc-def'' \<noteq> []" by simp
  have f3: "[''abc'', ''def''] = py_split CHR ''-'' (py_replace ''bytes='' [] ''bytes=abc-def'')"
    by (rule range_match_abc [symmetric])
  have f4: "length [''abc'', ''def''] < 2
         \<or> py_int (hd [''abc'', ''def'']) = Inl ValueError
         \<or> ([''abc'', ''def''] ! 1 \<noteq> [] \<and> py_int ([''abc'', ''def''] ! 1) = Inl ValueError)"
    by (simp add: py_int_abc)
  show ?thesis using f1 f2 f3 f4 by (rule stream_video_unparsed_range)
qed

section \<open>Saving a video\<close>

lemma fold_max_Max: "fold max ids (seq::nat) = Max (insert seq (set ids))"
  using Max.set_eq_fold [of seq ids] by simp

lemma next_rowid_gt_seq: "seq < next_rowid seq ids"
  by (simp add: next_rowid_def fold_max_Max less_Suc_eq_le)

lemma next_rowid_gt_ids: "i \<in> set ids \<Longrightarrow> i < next_rowid seq ids"
  by (simp add: next_rowid_def fold_max_Max less_Suc_eq_le)

lemma insert_tags_frame:
  "videos (foldl (insert_tag v) db ts) = videos db"
  "videos_seq (foldl (insert_tag v) db ts) = videos_seq db"
  "playlists (foldl (insert_tag v) db ts) = playlists db"
  "playlists_seq (foldl (insert_tag v) db ts) = playlists_seq db"
  "playlist_items (foldl (insert_tag v) db ts) = playlist_items db"
  by (induction ts arbitrary: db; simp add: insert_tag_def Let_def)+

lemma insert_tags_rows:
  "\<exists>new. tags (foldl (insert_tag v) db ts) = tags db @ new
     \<and> map t_tag new = ts
     \<and> (\<forall>t \<in> set new. t_video_id t = v
            \<and> next_rowid (tags_seq db) (map t_id (tags db)) \<le> t_id t)"
proof (induction ts arbitrary: db)
  case Nil
  then show ?case by simp
next
  case (Cons a ts)
  define tid where "tid = next_rowid (tags_seq db) (map t_id (tags db))"
  define db' where "db' = insert_tag v db a"
  have db': "tags db' = tags db @ [\<lparr>t_id = tid, t_video_id = v, t_tag = a\<rparr>]"
    "tags_seq db' = tid"
    by (simp_all add: db'_def insert_tag_def Let_def tid_def)
  from Cons.IH [of db'] obtain new where new:
    "tags (foldl (insert_tag v) db' ts) = tags db' @ new" "map t_tag new = ts"
    "\<forall>t \<in> set new. t_video_id t = v \<and> next_rowid (tags_seq db') (map t_id (tags db')) \<le> t_id t"
    by blast
  have "tid < next_rowid (tags_seq db') (map t_id (tags db'))"
    by (simp add: db' next_rowid_gt_seq)
  with new(3) have "\<forall>t \<in> set new. t_video_id t = v \<and> tid \<le> t_id t"
    by auto
  with new(1,2) db' show ?case
    by (intro exI [of _ "\<lparr>t_id = tid, t_video_id = v, t_tag = a\<rparr> # new"])
       (simp add: db'_def [symmetric] tid_def [symmetric])
qed

lemma insert_tags_fresh:
  assumes "t_video_id t = v \<and> next_rowid (tags_seq db) (map t_id (tags db)) \<le> t_id t"
  shows "t \<notin> set (tags db)"
proof
  assume "t \<in> set (tags db)"
  then have "t_id t \<in> set (map t_id (tags db))" by simp
  then have "t_id t < next_rowid (tags_seq db) (map t_id (tags db))"
    by (rule next_rowid_gt_ids)
  with assms show False by simp
qed

lemma save_to_database_unfold:
  assumes "dict_get (vd_video_id vd) = Some vid" and "dict_get (vd_title vd) = Some title"
  shows "save_to_database db vd tgs pn
           = (foldl (insert_tag (next_rowid (videos_seq db) (map v_id (videos db))))
                (db\<lparr>videos := filter (\<lambda>r. v_video_id r \<noteq> vid) (videos db)
                        @ [\<lparr>v_id = next_rowid (videos_seq db) (map v_id (videos db)), v_video_id = vid, v_title = title,
                  v_uploader = dict_get (vd_uploader vd),
                  v_upload_date = dict_get (vd_upload_date vd),
                  v_duration = dict_get (vd_duration vd),
                  v_description = dict_get (vd_description vd),
                  v_view_count = dict_get (vd_view_count vd),
                  v_is_short = bind_pyval (dict_get_default (vd_is_short vd) (PyBool False)),
                  v_file_path = dict_get (vd_file_path vd),
                  v_thumbnail_path = dict_get (vd_thumbnail_path vd),
                  v_download_date = dict_get (vd_download_date vd),
                  v_original_url = dict_get (vd_original_url vd),
                  v_status = dict_get_default (vd_status vd) ''completed''\<rparr>],
                    videos_seq := next_rowid (videos_seq db) (map v_id (videos db))\<rparr>)
                (''YouTube'' # (case tgs of None \<Rightarrow> [] | Some ts \<Rightarrow> ts)),
              Inr (next_rowid (videos_seq db) (map v_id (videos db))))"
  by (simp add: save_to_database_def assms sql_texts_ok Let_def)

lemma save_to_database_result:
  assumes "dict_get (vd_video_id vd) = Some vid" and "dict_get (vd_title vd) = Some title"
  shows "snd (save_to_database db vd tgs pn)
           = Inr (next_rowid (videos_seq db) (map v_id (videos db)))"
  by (simp add: save_to_database_unfold [OF assms])

lemma save_to_database_videos:
  assumes "dict_get (vd_video_id vd) = Some vid" and "dict_get (vd_title vd) = Some title"
  shows "videos (fst (save_to_database db vd tgs pn))
           = filter (\<lambda>r. v_video_id r \<noteq> vid) (videos db)
               @ [\<lparr>v_id = next_rowid (videos_seq db) (map v_id (videos db)), v_video_id = vid, v_title = title,
                  v_uploader = dict_get (vd_uploader vd),
                  v_upload_date = dict_get (vd_upload_date vd),
                  v_duration = dict_get (vd_duration vd),
                  v_description = dict_get (vd_description vd),
                  v_view_count = dict_get (vd_view_count vd),
                  v_is_short = bind_pyval (dict_get_default (vd_is_short vd) (PyBool False)),
                  v_file_path = dict_get (vd_file_path vd),
                  v_thumbnail_path = dict_get (vd_thumbnail_path vd),
                  v_download_date = dict_get (vd_download_date vd),
                  v_original_url = dict_get (vd_original_url vd),
                  v_status = dict_get_default (vd_status vd) ''completed''\<rparr>]"
  by (simp add: save_to_database_unfold [OF assms] insert_tags_frame insert_tag_def Let_def)

lemma save_to_database_frame:
  assumes "dict_get (vd_video_id vd) = Some vid" and "dict_get (vd_title vd) = Some title"
  shows "videos_seq (fst (save_to_database db vd tgs pn))
           = next_rowid (videos_seq db) (map v_id (videos db))"
    and "playlists (fst (save_to_database db vd tgs pn)) = playlists db"
    and "playlists_seq (fst (save_to_database db vd tgs pn)) = playlists_seq db"
    and "playlist_items (fst (save_to_database db vd tgs pn)) = playlist_items db"
  by (simp_all add: save_to_database_unfold [OF assms] insert_tags_frame insert_tag_def Let_def)

lemma save_to_database_tags:
  assumes "dict_get (vd_video_id vd) = Some vid" and "dict_get (vd_title vd) = Some title"
  shows "\<exists>new. tags (fst (save_to_database db vd tgs pn)) = tags db @ new
           \<and> map t_tag new = ''YouTube'' # (case tgs of None \<Rightarrow> [] | Some ts \<Rightarrow> ts)
           \<and> (\<forall>t \<in> set new. t_video_id t = next_rowid (videos_seq db) (map v_id (videos db))
                  \<and> t \<notin> set (tags db))"
proof -
  define nid where "nid = next_rowid (videos_seq db) (map v_id (videos db))"
  define db1 where "db1 = db\<lparr>videos := filter (\<lambda>r. v_video_id r \<noteq> vid) (videos db)
                @ [\<lparr>v_id = nid, v_video_id = vid, v_title = title,
                  v_uploader = dict_get (vd_uploader vd),
                  v_upload_date = dict_get (vd_upload_date vd),
                  v_duration = dict_get (vd_duration vd),
                  v_description = dict_get (vd_description vd),
                  v_view_count = dict_get (vd_view_count vd),
                  v_is_short = bind_pyval (dict_get_default (vd_is_short vd) (PyBool False)),
                  v_file_path = dict_get (vd_file_path vd),
                  v_thumbnail_path = dict_get (vd_thumbnail_path vd),
                  v_download_date = dict_get (vd_download_date vd),
                  v_original_url = dict_get (vd_original_url vd),
                  v_status = dict_get_default (vd_status vd) ''completed''\<rparr>],
              videos_seq := nid\<rparr>"
  define all_tags where "all_tags = ''YouTube'' # (case tgs of None \<Rightarrow> [] | Some ts \<Rightarrow> ts)"
  have s: "fst (save_to_database db vd tgs pn) = foldl (insert_tag nid) db1 all_tags"
    by (simp add: save_to_database_unfold [OF assms] db1_def all_tags_def nid_def)
  from insert_tags_rows [of nid db1 all_tags] obtain new where new:
    "tags (foldl (insert_tag nid) db1 all_tags) = tags db1 @ new" "map t_tag new = all_tags"
    "\<forall>t \<in> set new. t_video_id t = nid
        \<and> next_rowid (tags_seq db1) (map t_id (tags db1)) \<le> t_id t"
    by blast
  have t1: "tags db1 = tags db" "tags_seq db1 = tags_seq db"
    by (simp_all add: db1_def)
  from new(3) have fresh: "\<forall>t \<in> set new. t_video_id t = nid \<and> t \<notin> set (tags db)"
    using insert_tags_fresh [of _ nid db] by (auto simp add: t1)
  have a: "tags (fst (save_to_database db vd tgs pn)) = tags db @ new"
    using new(1) by (simp add: s t1)
  have b: "map t_tag new = ''YouTube'' # (case tgs of None \<Rightarrow> [] | Some ts \<Rightarrow> ts)"
    using new(2) by (simp add: all_tags_def)
  have c: "\<forall>t \<in> set new. t_video_id t = next_rowid (videos_seq db) (map v_id (videos db))
                  \<and> t \<notin> set (tags db)"
    using fresh by (simp add: nid_def)
  show ?thesis
  proof (intro exI conjI)
    show "tags (fst (save_to_database db vd tgs pn)) = tags db @ new" by (rule a)
    show "map t_tag new = ''YouTube'' # (case tgs of None \<Rightarrow> [] | Some ts \<Rightarrow> ts)"
      by (rule b)
    show "\<forall>t \<in> set new. t_video_id t = next_rowid (videos_seq db) (map v_id (videos db))
                  \<and> t \<notin> set (tags db)"
      by (rule c)
  qed
qed

lemma filter_same_video_id:
  "filter (\<lambda>r. v_video_id r = vid) (filter (\<lambda>r. v_video_id r \<noteq> vid) rows @ [row])
     = (if v_video_id row = vid then [row] else [])"
  by (simp add: filter_empty_conv)

text \<open>
  Claim C4. Two saves with the same external video id, each of a record that has the
  video id and the title the table requires, both return; after the first the id is in
  the catalog, and after the second exactly one row of \<open>videos\<close> carries that id, with
  the columns of the second record (an absent \<open>is_short\<close> is stored as 0 and an absent
  \<open>status\<close> as \<open>completed\<close>, the defaults of \<open>save_to_database\<close>).
\<close>

theorem save_to_database_replaces:
  assumes "dict_get (vd_video_id vd1) = Some vid" and "dict_get (vd_title vd1) = Some title1"
    and "dict_get (vd_video_id vd2) = Some vid" and "dict_get (vd_title vd2) = Some title2"
  shows "\<exists>db1 id1 db2 id2.
           save_to_database db vd1 tags1 pn1 = (db1, Inr id1)
           \<and> (\<exists>r \<in> set (videos db1). v_video_id r = vid)
           \<and> save_to_database db1 vd2 tags2 pn2 = (db2, Inr id2)
           \<and> filter (\<lambda>r. v_video_id r = vid) (videos db2)
               = [\<lparr>v_id = id2, v_video_id = vid, v_title = title2,
                  v_uploader = dict_get (vd_uploader vd2),
                  v_upload_date = dict_get (vd_upload_date vd2),
                  v_duration = dict_get (vd_duration vd2),
                  v_description = dict_get (vd_description vd2),
                  v_view_count = dict_get (vd_view_count vd2),
                  v_is_short = bind_pyval (dict_get_default (vd_is_short vd2) (PyBool False)),
                  v_file_path = dict_get (vd_file_path vd2),
                  v_thumbnail_path = dict_get (vd_thumbnail_path vd2),
                  v_download_date = dict_get (vd_download_date vd2),
                  v_original_url = dict_get (vd_original_url vd2),
                  v_status = dict_get_default (vd_status vd2) ''completed''\<rparr>]"
proof -
  define db1 where "db1 = fst (save_to_database db vd1 tags1 pn1)"
  define id1 where "id1 = next_rowid (videos_seq db) (map v_id (videos db))"
  define db2 where "db2 = fst (save_to_database db1 vd2 tags2 pn2)"
  define id2 where "id2 = next_rowid (videos_seq db1) (map v_id (videos db1))"
  have s1: "save_to_database db vd1 tags1 pn1 = (db1, Inr id1)"
    using save_to_database_result [OF assms(1,2), of db tags1 pn1]
    by (simp add: db1_def id1_def prod_eq_iff)
  have s2: "save_to_database db1 vd2 tags2 pn2 = (db2, Inr id2)"
    using save_to_database_result [OF assms(3,4), of db1 tags2 pn2]
    by (simp add: db2_def id2_def prod_eq_iff)
  have e1: "\<exists>r \<in> set (videos db1). v_video_id r = vid"
    unfolding db1_def save_to_database_videos [OF assms(1,2)] by simp
  have "videos db2 = filter (\<lambda>r. v_video_id r \<noteq> vid) (videos db1)
               @ [\<lparr>v_id = id2, v_video_id = vid, v_title = title2,
                  v_uploader = dict_get (vd_uploader vd2),
                  v_upload_date = dict_get (vd_upload_date vd2),
                  v_duration = dict_get (vd_duration vd2),
                  v_description = dict_get (vd_description vd2),
                  v_view_count = dict_get (vd_view_count vd2),
                  v_is_short = bind_pyval (dict_get_default (vd_is_short vd2) (PyBool False)),
                  v_file_path = dict_get (vd_file_path vd2),
                  v_thumbnail_path = dict_get (vd_thumbnail_path vd2),
                  v_download_date = dict_get (vd_download_date vd2),
                  v_original_url = dict_get (vd_original_url vd2),
                  v_status = dict_get_default (vd_status vd2) ''completed''\<rparr>]"
    unfolding db2_def id2_def by (rule save_to_database_videos [OF assms(3,4)])
  then have f: "filter (\<lambda>r. v_video_id r = vid) (videos db2)
               = [\<lparr>v_id = id2, v_video_id = vid, v_title = title2,
                  v_uploader = dict_get (vd_uploader vd2),
                  v_upload_date = dict_get (vd_upload_date vd2),
                  v_duration = dict_get (vd_duration vd2),
                  v_description = dict_get (vd_description vd2),
                  v_view_count = dict_get (vd_view_count vd2),
                  v_is_short = bind_pyval (dict_get_default (vd_is_short vd2) (PyBool False)),
                  v_file_path = dict_get (vd_file_path vd2),
                  v_thumbnail_path = dict_get (vd_thumbnail_path vd2),
                  v_download_date = dict_get (vd_download_date vd2),
                  v_original_url = dict_get (vd_original_url vd2),
                  v_status = dict_get_default (vd_status vd2) ''completed''\<rparr>]"
    by (simp only: filter_same_video_id) simp
  from s1 e1 s2 f show ?thesis by blast
qed

theorem save_to_database_replaces_witness:
  "\<exists>db1 id1 db2 id2.
     save_to_database catalog_0 record_a (Some [''music'']) None = (db1, Inr id1)
     \<and> (\<exists>r \<in> set (videos db1). v_video_id r = ''abc123'')
     \<and> save_to_database db1 record_b None None = (db2, Inr id2)
     \<and> filter (\<lambda>r. v_video_id r = ''abc123'') (videos db2)
         = [\<lparr>v_id = id2, v_video_id = ''abc123'', v_title = ''Second title'',
             v_uploader = None, v_upload_date = Some ''20240101'', v_duration = Some 50,
             v_description = None, v_view_count = Some 12, v_is_short = Some 0,
             v_file_path = Some ''media/videos/Unknown/Second title.mp4'',
             v_thumbnail_path = None, v_download_date = Some ''2024-02-03T04:05:06'',
             v_original_url = Some ''https://www.youtube.com/watch?v=abc123'',
             v_status = Some ''completed''\<rparr>]"
  using save_to_database_replaces [of record_a "''abc123''" "''First title''" record_b
      "''Second title''" catalog_0 "Some [''music'']" None None None]
  by (simp add: record_a_def record_b_def)

lemma save_to_database_old_rows:
  assumes "dict_get (vd_video_id vd) = Some vid" and "dict_get (vd_title vd) = Some title"
    and "r \<in> set (videos (fst (save_to_database db vd tgs pn)))"
  shows "(r \<in> set (videos db) \<and> v_video_id r \<noteq> vid)
         \<or> (v_id r = next_rowid (videos_seq db) (map v_id (videos db)) \<and> v_video_id r = vid)"
  using assms(3) unfolding save_to_database_videos [OF assms(1,2)] by auto

text \<open>
  Claim C10. A second save of the same external video id returns a row id larger than
  the first; no row of \<open>videos\<close> has the first row id any more, while every tag row of
  the first save and a playlist item that links the first row id are still in the
  database and still name the first row id; and the second save adds its own tag rows
  for the new row id, the first of them \<open>YouTube\<close>, none of which was there before.
\<close>

theorem resave_leaves_orphans:
  assumes "dict_get (vd_video_id vd1) = Some vid" and "dict_get (vd_title vd1) = Some title1"
    and "dict_get (vd_video_id vd2) = Some vid" and "dict_get (vd_title vd2) = Some title2"
  shows "\<exists>db1 id1 db2 id2 old_tags new_tags.
           save_to_database db vd1 tags1 pn1 = (db1, Inr id1)
           \<and> (\<exists>r \<in> set (videos db1). v_id r = id1 \<and> v_video_id r = vid)
           \<and> tags db1 = tags db @ old_tags
           \<and> map t_tag old_tags = ''YouTube'' # (case tags1 of None \<Rightarrow> [] | Some ts \<Rightarrow> ts)
           \<and> (\<forall>t \<in> set old_tags. t_video_id t = id1)
           \<and> save_to_database
                (db1\<lparr>playlist_items := playlist_items db1
                        @ [\<lparr>pi_playlist_id = pl, pi_videos_id = id1, pi_position = pos\<rparr>]\<rparr>)
                vd2 tags2 pn2 = (db2, Inr id2)
           \<and> id1 < id2
           \<and> (\<forall>r \<in> set (videos db2). v_id r \<noteq> id1)
           \<and> (\<exists>r \<in> set (videos db2). v_id r = id2 \<and> v_video_id r = vid)
           \<and> tags db2 = tags db @ old_tags @ new_tags
           \<and> map t_tag new_tags = ''YouTube'' # (case tags2 of None \<Rightarrow> [] | Some ts \<Rightarrow> ts)
           \<and> (\<forall>t \<in> set new_tags. t_video_id t = id2 \<and> t \<notin> set (tags db1))
           \<and> playlist_items db2 = playlist_items db
                @ [\<lparr>pi_playlist_id = pl, pi_videos_id = id1, pi_position = pos\<rparr>]"
proof -
  define db1 where "db1 = fst (save_to_database db vd1 tags1 pn1)"
  define id1 where "id1 = next_rowid (videos_seq db) (map v_id (videos db))"
  define db1' where "db1' = db1\<lparr>playlist_items := playlist_items db1
                        @ [\<lparr>pi_playlist_id = pl, pi_videos_id = id1, pi_position = pos\<rparr>]\<rparr>"
  define db2 where "db2 = fst (save_to_database db1' vd2 tags2 pn2)"
  define id2 where "id2 = next_rowid (videos_seq db1') (map v_id (videos db1'))"
  have s1: "save_to_database db vd1 tags1 pn1 = (db1, Inr id1)"
    using save_to_database_result [OF assms(1,2), of db tags1 pn1]
    by (simp add: db1_def id1_def prod_eq_iff)
  have s2: "save_to_database db1' vd2 tags2 pn2 = (db2, Inr id2)"
    using save_to_database_result [OF assms(3,4), of db1' tags2 pn2]
    by (simp add: db2_def id2_def prod_eq_iff)
  have e1: "\<exists>r \<in> set (videos db1). v_id r = id1 \<and> v_video_id r = vid"
    unfolding db1_def id1_def save_to_database_videos [OF assms(1,2)] by simp
  have e2: "\<exists>r \<in> set (videos db2). v_id r = id2 \<and> v_video_id r = vid"
    unfolding db2_def id2_def save_to_database_videos [OF assms(3,4)] by simp
  from save_to_database_tags [OF assms(1,2), of db tags1 pn1]
  obtain old_tags where old_tags: "tags db1 = tags db @ old_tags"
    "map t_tag old_tags = ''YouTube'' # (case tags1 of None \<Rightarrow> [] | Some ts \<Rightarrow> ts)"
    "\<forall>t \<in> set old_tags. t_video_id t = id1"
    unfolding db1_def id1_def by (elim exE conjE) simp
  have d1': "videos db1' = videos db1" "tags db1' = tags db1"
    by (simp_all add: db1'_def)
  have seq1: "videos_seq db1' = id1"
    using save_to_database_frame(1) [OF assms(1,2), of db tags1 pn1]
    by (simp add: db1'_def db1_def id1_def)
  have items1: "playlist_items db1' = playlist_items db
        @ [\<lparr>pi_playlist_id = pl, pi_videos_id = id1, pi_position = pos\<rparr>]"
    using save_to_database_frame(4) [OF assms(1,2), of db tags1 pn1]
    by (simp add: db1'_def db1_def)
  from save_to_database_tags [OF assms(3,4), of db1' tags2 pn2]
  obtain new_tags where new_tags: "tags db2 = tags db1' @ new_tags"
    "map t_tag new_tags = ''YouTube'' # (case tags2 of None \<Rightarrow> [] | Some ts \<Rightarrow> ts)"
    "\<forall>t \<in> set new_tags. t_video_id t = id2 \<and> t \<notin> set (tags db1')"
    unfolding db2_def id2_def by (elim exE conjE) simp
  have items2: "playlist_items db2 = playlist_items db
        @ [\<lparr>pi_playlist_id = pl, pi_videos_id = id1, pi_position = pos\<rparr>]"
    using save_to_database_frame(4) [OF assms(3,4), of db1' tags2 pn2]
    by (simp add: db2_def items1)
  have lt: "id1 < id2"
    unfolding id2_def seq1 by (rule next_rowid_gt_seq)
  have gone: "\<forall>r \<in> set (videos db2). v_id r \<noteq> id1"
  proof
    fix r assume "r \<in> set (videos db2)"
    then have "(r \<in> set (videos db1') \<and> v_video_id r \<noteq> vid) \<or> v_id r = id2"
      unfolding db2_def id2_def
      using save_to_database_old_rows [OF assms(3,4), of r db1' tags2 pn2] by blast
    then show "v_id r \<noteq> id1"
    proof
      assume "r \<in> set (videos db1') \<and> v_video_id r \<noteq> vid"
      then have "r \<in> set (videos db1)" and nv: "v_video_id r \<noteq> vid" by (simp_all add: d1')
      then have "r \<in> set (videos db)"
        unfolding db1_def
        using save_to_database_old_rows [OF assms(1,2), of r db tags1 pn1] by blast
      then have "v_id r \<in> set (map v_id (videos db))" by simp
      then have "v_id r < id1" unfolding id1_def by (rule next_rowid_gt_ids)
      then show ?thesis by simp
    next
      assume "v_id r = id2"
      with lt show ?thesis by simp
    qed
  qed
  have t2: "tags db2 = tags db @ old_tags @ new_tags"
    using new_tags(1) old_tags(1) by (simp add: d1')
  have fresh: "\<forall>t \<in> set new_tags. t_video_id t = id2 \<and> t \<notin> set (tags db1)"
    using new_tags(3) by (simp add: d1')
  show ?thesis
  proof (intro exI conjI)
    show "save_to_database db vd1 tags1 pn1 = (db1, Inr id1)" by (rule s1)
    show "\<exists>r \<in> set (videos db1). v_id r = id1 \<and> v_video_id r = vid" by (rule e1)
    show "tags db1 = tags db @ old_tags" by (rule old_tags(1))
    show "map t_tag old_tags = ''YouTube'' # (case tags1 of None \<Rightarrow> [] | Some ts \<Rightarrow> ts)"
      by (rule old_tags(2))
    show "\<forall>t \<in> set old_tags. t_video_id t = id1" by (rule old_tags(3))
    show "save_to_database
            (db1\<lparr>playlist_items := playlist_items db1
                    @ [\<lparr>pi_playlist_id = pl, pi_videos_id = id1, pi_position = pos\<rparr>]\<rparr>)
            vd2 tags2 pn2 = (db2, Inr id2)"
      using s2 by (simp add: db1'_def)
    show "id1 < id2" by (rule lt)
    show "\<forall>r \<in> set (videos db2). v_id r \<noteq> id1" by (rule gone)
    show "\<exists>r \<in> set (videos db2). v_id r = id2 \<and> v_video_id r = vid" by (rule e2)
    show "tags db2 = tags db @ old_tags @ new_tags" by (rule t2)
    show "map t_tag new_tags = ''YouTube'' # (case tags2 of None \<Rightarrow> [] | Some ts \<Rightarrow> ts)"
      by (rule new_tags(2))
    show "\<forall>t \<in> set new_tags. t_video_id t = id2 \<and> t \<notin> set (tags db1)" by (rule fresh)
    show "playlist_items db2 = playlist_items db
            @ [\<lparr>pi_playlist_id = pl, pi_videos_id = id1, pi_position = pos\<rparr>]"
      by (rule items2)
  qed
qed

theorem resave_leaves_orphans_witness:
  "\<exists>db1 id1 db2 id2 old_tags new_tags.
     save_to_database catalog_0 record_a (Some [''music'']) None = (db1, Inr id1)
     \<and> (\<exists>r \<in> set (videos db1). v_id r = id1 \<and> v_video_id r = ''abc123'')
     \<and> tags db1 = tags catalog_0 @ old_tags
     \<and> map t_tag old_tags = [''YouTube'', ''music'']
     \<and> (\<forall>t \<in> set old_tags. t_video_id t = id1)
     \<and> save_to_database
          (db1\<lparr>playlist_items := playlist_items db1
                  @ [\<lparr>pi_playlist_id = 1, pi_videos_id = id1, pi_position = 0\<rparr>]\<rparr>)
          record_b None None = (db2, Inr id2)
     \<and> id1 < id2
     \<and> (\<forall>r \<in> set (videos db2). v_id r \<noteq> id1)
     \<and> (\<exists>r \<in> set (videos db2). v_id r = id2 \<and> v_video_id r = ''abc123'')
     \<and> tags db2 = tags catalog_0 @ old_tags @ new_tags
     \<and> map t_tag new_tags = [''YouTube'']
     \<and> (\<forall>t \<in> set new_tags. t_video_id t = id2 \<and> t \<notin> set (tags db1))
     \<and> playlist_items db2 = playlist_items catalog_0
          @ [\<lparr>pi_playlist_id = 1, pi_videos_id = id1, pi_position = 0\<rparr>]"
proof -
  have h: "dict_get (vd_video_id record_a) = Some ''abc123''"
    "dict_get (vd_title record_a) = Some ''First title''"
    "dict_get (vd_video_id record_b) = Some ''abc123''"
    "dict_get (vd_title record_b) = Some ''Second title''"
    by (simp_all add: record_a_def record_b_def)
  from resave_leaves_orphans [OF h, of catalog_0 "Some [''music'']" None 1 0 None None]
  show ?thesis by simp
qed

section \<open>Playlist ingestion\<close>

lemma dict_get_to_entry: "dict_get (to_entry x) = x"
  by (cases x) simp_all

lemma output_template_returns:
  assumes "info_web_page_url info \<noteq> Null" and "info_uploader info \<noteq> Null"
    and "info_title info \<noteq> Null" and "\<forall>dir. mkdir env dir"
  shows "\<exists>is_short template. output_template env info = Inr (is_short, template)"
proof -
  from assms(1) obtain v where "is_youtube_short info = Inr v"
    by (cases "info_web_page_url info") (simp_all add: is_youtube_short_def Let_def)
  moreover from assms(2) obtain u where
    "sanitize_filename (dict_get_default (info_uploader info) ''Unknown'') = Inr u"
    by (cases "info_uploader info") (simp_all add: sanitize_filename_def)
  moreover from assms(3) obtain t where
    "sanitize_filename (dict_get_default (info_title info) ''Untitled'') = Inr t"
    by (cases "info_title info") (simp_all add: sanitize_filename_def)
  ultimately show ?thesis using assms(4) by (simp add: output_template_def Let_def)
qed

lemma download_video_probe_fails:
  assumes "ydl_probe env url = Inl message"
  shows "download_video env db url tgs name = (db, Inr (ErrorResult message))"
  using assms by (simp add: download_video_def)

lemma download_video_fetch_fails:
  assumes "ydl_probe env url = Inr info"
    and "output_template env info = Inr (is_short, template)"
    and "ydl_fetch env url template = Inl message"
  shows "download_video env db url tgs name = (db, Inr (ErrorResult message))"
  using assms by (simp add: download_video_def)

lemma download_video_saves:
  assumes "ydl_probe env url = Inr info"
    and "output_template env info = Inr (is_short, template)"
    and "ydl_fetch env url template = Inr (info', downloaded_file)"
    and "dict_get (info_id info') = Some vid" and "dict_get (info_title info') = Some title"
  shows "\<exists>db'. download_video env db url tgs name
            = (db', Inr (SuccessResult (Some vid) (Some title) is_short
                 (next_rowid (videos_seq db) (map v_id (videos db)))))
          \<and> playlist_items db' = playlist_items db
          \<and> playlists db' = playlists db"
proof -
  define vd where "vd =
       \<lparr>vd_video_id = to_entry (dict_get (info_id info')),
        vd_title = to_entry (dict_get (info_title info')),
        vd_uploader = to_entry (dict_get (info_uploader info')),
        vd_upload_date = to_entry (dict_get (info_upload_date info')),
        vd_duration = to_entry (dict_get (info_duration info')),
        vd_description = to_entry (dict_get (info_description info')),
        vd_view_count = to_entry (dict_get (info_view_count info')),
        vd_is_short = to_entry is_short,
        vd_file_path = Val downloaded_file,
        vd_thumbnail_path = to_entry (dict_get (info_thumbnail info')),
        vd_download_date = Val (now env),
        vd_original_url = Val url,
        vd_status = Val ''completed''\<rparr>"
  have k: "dict_get (vd_video_id vd) = Some vid" "dict_get (vd_title vd) = Some title"
    by (simp_all add: vd_def dict_get_to_entry assms(4,5))
  define db' where "db' = fst (save_to_database db vd tgs name)"
  have s: "save_to_database db vd tgs name
             = (db', Inr (next_rowid (videos_seq db) (map v_id (videos db))))"
    using save_to_database_result [OF k, of db tgs name] by (simp add: db'_def prod_eq_iff)
  have "download_video env db url tgs name
          = (case save_to_database db vd tgs name of
               (db', Inl e) \<Rightarrow> (db', Inl e)
             | (db', Inr db_video_id) \<Rightarrow>
                 (db', Inr (SuccessResult (dict_get (info_id info'))
                              (dict_get (info_title info')) is_short db_video_id)))"
    by (simp add: download_video_def assms(1,2,3) Let_def vd_def)
  then have "download_video env db url tgs name
            = (db', Inr (SuccessResult (Some vid) (Some title) is_short
                 (next_rowid (videos_seq db) (map v_id (videos db)))))"
    by (simp add: s assms(4,5))
  moreover have "playlist_items db' = playlist_items db"
    unfolding db'_def by (rule save_to_database_frame(4) [OF k])
  moreover have "playlists db' = playlists db"
    unfolding db'_def by (rule save_to_database_frame(2) [OF k])
  ultimately show ?thesis by blast
qed

lemma download_video_well_formed:
  assumes "entry_well_formed env url"
  shows "\<exists>db' r. download_video env db url tgs name = (db', Inr r)
           \<and> (is_success r \<longleftrightarrow> entry_succeeds env url)
           \<and> playlist_items db' = playlist_items db
           \<and> playlists db' = playlists db"
proof (cases "ydl_probe env url")
  case (Inl message)
  then show ?thesis
    by (simp add: download_video_probe_fails entry_succeeds_def)
next
  case (Inr info)
  with assms obtain is_short template where t: "output_template env info = Inr (is_short, template)"
    by (auto simp add: entry_well_formed_def split: sum.splits)
  show ?thesis
  proof (cases "ydl_fetch env url template")
    case (Inl message)
    with Inr t show ?thesis
      by (simp add: download_video_fetch_fails entry_succeeds_def)
  next
    case f: (Inr p)
    obtain info' downloaded_file where p: "p = (info', downloaded_file)" by (cases p)
    with assms Inr t f obtain vid title where
      "dict_get (info_id info') = Some vid" "dict_get (info_title info') = Some title"
      by (auto simp add: entry_well_formed_def)
    from download_video_saves [OF Inr t f [unfolded p] this, of db tgs name]
    show ?thesis using Inr t f p by (auto simp add: entry_succeeds_def)
  qed
qed

lemma download_video_raises:
  assumes "ydl_probe env url = Inr info" and "output_template env info = Inl e"
  shows "download_video env db url tgs name = (db, Inl e)"
  using assms by (simp add: download_video_def)

lemma linked_items_Nil: "linked_items plid idx [] = []"
  by (simp add: linked_items_def)

lemma linked_items_Cons:
  "linked_items plid idx (r # rs)
     = (if is_success r
        then [\<lparr>pi_playlist_id = plid, pi_videos_id = r_db_id r, pi_position = idx\<rparr>]
        else [])
       @ linked_items plid (Suc idx) rs"
proof -
  have u: "[idx..<idx + length (r # rs)] = idx # [Suc idx..<Suc idx + length rs]"
    by (simp add: upt_conv_Cons del: upt_Suc)
  show ?thesis
    unfolding linked_items_def u by (simp del: upt_Suc)
qed

lemma playlist_loop_well_formed:
  assumes "\<forall>e \<in> set entries. entry_well_formed env (entry_url e)"
  shows "\<exists>db' rs. playlist_loop env tgs name plid idx entries db acc
                     = (db', Inr (acc @ rs))
           \<and> map is_success rs = map (\<lambda>e. entry_succeeds env (entry_url e)) entries
           \<and> playlist_items db' = playlist_items db @ linked_items plid idx rs
           \<and> playlists db' = playlists db"
  using assms
proof (induction entries arbitrary: idx db acc)
  case Nil
  then show ?case by (simp add: linked_items_Nil)
next
  case (Cons entry rest)
  from Cons.prems have wf: "entry_well_formed env (entry_url entry)" by simp
  from download_video_well_formed [OF wf, of db tgs name]
  obtain db1 r where r: "download_video env db (entry_url entry) tgs name = (db1, Inr r)"
    "is_success r \<longleftrightarrow> entry_succeeds env (entry_url entry)"
    "playlist_items db1 = playlist_items db" "playlists db1 = playlists db"
    by blast
  define db2 where "db2 =
       (if is_success r
        then db1\<lparr>playlist_items := playlist_items db1
                   @ [\<lparr>pi_playlist_id = plid, pi_videos_id = r_db_id r, pi_position = idx\<rparr>]\<rparr>
        else db1)"
  have step: "playlist_loop env tgs name plid idx (entry # rest) db acc
         = playlist_loop env tgs name plid (Suc idx) rest db2 (acc @ [r])"
    by (simp add: r(1) sql_texts_ok db2_def Let_def)
  from Cons.prems have "\<forall>e \<in> set rest. entry_well_formed env (entry_url e)" by simp
  from Cons.IH [OF this, of "Suc idx" db2 "acc @ [r]"]
  obtain db' rs where ih:
    "playlist_loop env tgs name plid (Suc idx) rest db2 (acc @ [r])
       = (db', Inr ((acc @ [r]) @ rs))"
    "map is_success rs = map (\<lambda>e. entry_succeeds env (entry_url e)) rest"
    "playlist_items db' = playlist_items db2 @ linked_items plid (Suc idx) rs"
    "playlists db' = playlists db2"
    by blast
  have lists2: "playlists db2 = playlists db"
    by (simp add: db2_def r(4))
  have items2: "playlist_items db2 = playlist_items db
        @ (if is_success r
           then [\<lparr>pi_playlist_id = plid, pi_videos_id = r_db_id r, pi_position = idx\<rparr>]
           else [])"
    by (simp add: db2_def r(3))
  show ?case
  proof (intro exI conjI)
    show "playlist_loop env tgs name plid idx (entry # rest) db acc
            = (db', Inr (acc @ r # rs))"
      using step ih(1) by simp
    show "map is_success (r # rs)
            = map (\<lambda>e. entry_succeeds env (entry_url e)) (entry # rest)"
      using r(2) ih(2) by simp
    show "playlist_items db' = playlist_items db @ linked_items plid idx (r # rs)"
      using ih(3) items2 by (simp add: linked_items_Cons)
    show "playlists db' = playlists db"
      using ih(4) lists2 by simp
  qed
qed

lemma insert_or_ignore_playlist_frame:
  "playlist_items (insert_or_ignore_playlist db pid name d c) = playlist_items db"
  by (simp add: insert_or_ignore_playlist_def Let_def split: option.splits)

lemma select_after_insert:
  "\<exists>plid. select_playlist_id (insert_or_ignore_playlist db (Some pid) (Some n) d c) (Some pid)
            = Inr plid"
proof -
  have "\<exists>r \<in> set (playlists (insert_or_ignore_playlist db (Some pid) (Some n) d c)).
          p_playlist_id r = Some pid"
    by (auto simp add: insert_or_ignore_playlist_def Let_def list_ex_iff)
  then have "find (\<lambda>r. Some pid \<noteq> None \<and> p_playlist_id r = Some pid)
               (playlists (insert_or_ignore_playlist db (Some pid) (Some n) d c)) \<noteq> None"
    by (auto simp add: find_None_iff)
  then show ?thesis
    by (auto simp add: select_playlist_id_def)
qed

text \<open>
  What \<open>download_playlist\<close> does when no entry raises. For a playlist whose listing
  carries an id, a title and \<open>n\<close> entries, none of which makes \<open>download_video\<close> raise
  outside its two \<open>try\<close> blocks (\<open>entry_well_formed\<close>), it returns the top-level success
  result with \<open>n\<close> itemized results, one per entry in listing order; an entry is marked
  success exactly when the extractor failed at neither stage; and the playlist items
  added are exactly those of the successful entries, each at its 0-based listing index
  and under the row id that the catalog has for the playlist id of the listing
  (\<open>linked_items\<close> numbers the results from 0 and keeps the successful ones).
\<close>

lemma download_playlist_itemizes:
  assumes "ydl_listing env playlist_url = Inr pinfo"
    and "pl_id pinfo = Val pid" and "pl_title pinfo \<noteq> Null"
    and "dict_get_default (pl_entries pinfo) [] = Some entries"
    and "\<forall>e \<in> set entries. entry_well_formed env (entry_url e)"
  shows "\<exists>db' name rs plid.
           download_playlist env db playlist_url custom_tags
             = (db', Inr (PlaylistSuccess name (length entries) rs))
           \<and> length rs = length entries
           \<and> map is_success rs = map (\<lambda>e. entry_succeeds env (entry_url e)) entries
           \<and> select_playlist_id db' (Some pid) = Inr plid
           \<and> playlist_items db' = playlist_items db @ linked_items plid 0 rs"
proof -
  from assms(3) obtain n where n: "dict_get_default (pl_title pinfo) ''Unknown Playlist'' = Some n"
    by (cases "pl_title pinfo") simp_all
  define db1 where "db1 = insert_or_ignore_playlist db (Some pid) (Some n)
                             (dict_get_default (pl_description pinfo) []) (now env)"
  from select_after_insert [of db pid n "dict_get_default (pl_description pinfo) []" "now env"]
  obtain plid where plid: "select_playlist_id db1 (Some pid) = Inr plid"
    unfolding db1_def by blast
  from playlist_loop_well_formed [OF assms(5), of custom_tags "Some n" plid 0 db1 "[]"]
  obtain db' rs where loop:
    "playlist_loop env custom_tags (Some n) plid 0 entries db1 [] = (db', Inr rs)"
    "map is_success rs = map (\<lambda>e. entry_succeeds env (entry_url e)) entries"
    "playlist_items db' = playlist_items db1 @ linked_items plid 0 rs"
    "playlists db' = playlists db1"
    by auto
  have items1: "playlist_items db1 = playlist_items db"
    unfolding db1_def by (rule insert_or_ignore_playlist_frame)
  have len: "length rs = length entries"
    using loop(2) by (rule map_eq_imp_length_eq)
  have sel: "select_playlist_id db' (Some pid) = Inr plid"
    using plid by (simp add: select_playlist_id_def loop(4))
  have run: "download_playlist env db playlist_url custom_tags
          = (db', Inr (PlaylistSuccess (Some n) (length entries) rs))"
    by (simp add: download_playlist_def assms(1,2,4) n sql_texts_ok Let_def
          db1_def [symmetric] plid loop(1))
  show ?thesis
  proof (intro exI conjI)
    show "download_playlist env db playlist_url custom_tags
            = (db', Inr (PlaylistSuccess (Some n) (length entries) rs))"
      by (rule run)
    show "length rs = length entries" by (rule len)
    show "map is_success rs = map (\<lambda>e. entry_succeeds env (entry_url e)) entries"
      by (rule loop(2))
    show "select_playlist_id db' (Some pid) = Inr plid" by (rule sel)
    show "playlist_items db' = playlist_items db @ linked_items plid 0 rs"
      using loop(3) items1 by simp
  qed
qed

lemma entry_urls_0: "map entry_url entries_0 = [watch ''v1'', watch ''v2'', watch ''v3'']"
  by (simp add: entries_0_def entry_url_def watch_def)

lemma watch_distinct:
  "watch ''v1'' \<noteq> watch ''v2''" "watch ''v3'' \<noteq> watch ''v2''"
  by (simp_all add: watch_def)

lemma output_template_metadata:
  "\<exists>s t. output_template (env_of probe (\<lambda>dir. True)) (metadata url (Val ''Someone''))
           = Inr (s, t)"
  by (rule output_template_returns) (simp_all add: metadata_def clip_def env_of_def)

lemma well_formed_env_0: "entry_well_formed env_0 (watch i)"
proof (cases "watch i = watch ''v2''")
  case True
  then show ?thesis by (simp add: entry_well_formed_def env_0_def env_of_def)
next
  case False
  from output_template_metadata obtain s t where
    "output_template env_0 (metadata (watch i) (Val ''Someone'')) = Inr (s, t)"
    unfolding env_0_def by blast
  with False show ?thesis
    by (simp add: entry_well_formed_def env_0_def env_of_def)
       (simp add: metadata_def clip_def)
qed

lemma succeeds_env_0: "entry_succeeds env_0 (watch i) \<longleftrightarrow> watch i \<noteq> watch ''v2''"
proof (cases "watch i = watch ''v2''")
  case True
  then show ?thesis by (simp add: entry_succeeds_def env_0_def env_of_def)
next
  case False
  from output_template_metadata obtain s t where
    "output_template env_0 (metadata (watch i) (Val ''Someone'')) = Inr (s, t)"
    unfolding env_0_def by blast
  with False show ?thesis
    by (simp add: entry_succeeds_def env_0_def env_of_def)
qed

lemma download_playlist_itemizes_example:
  "\<exists>db' name rs plid.
     download_playlist env_0 catalog_0 ''https://www.youtube.com/playlist?list=PL1'' None
       = (db', Inr (PlaylistSuccess name 3 rs))
     \<and> length rs = 3
     \<and> map is_success rs = [True, False, True]
     \<and> select_playlist_id db' (Some ''PL1'') = Inr plid
     \<and> playlist_items db'
         = [\<lparr>pi_playlist_id = plid, pi_videos_id = r_db_id (rs ! 0), pi_position = 0\<rparr>,
            \<lparr>pi_playlist_id = plid, pi_videos_id = r_db_id (rs ! 2), pi_position = 2\<rparr>]"
proof -
  have h1: "ydl_listing env_0 ''https://www.youtube.com/playlist?list=PL1'' = Inr listing_0"
    by (simp add: env_0_def env_of_def)
  have h2: "pl_id listing_0 = Val ''PL1''" by (simp add: listing_0_def)
  have h3: "pl_title listing_0 \<noteq> Null" by (simp add: listing_0_def)
  have h4: "dict_get_default (pl_entries listing_0) [] = Some entries_0"
    by (simp add: listing_0_def)
  have "\<forall>u \<in> set (map entry_url entries_0). entry_well_formed env_0 u"
    unfolding entry_urls_0 by (simp add: well_formed_env_0)
  then have h5: "\<forall>e \<in> set entries_0. entry_well_formed env_0 (entry_url e)" by simp
  have "map (entry_succeeds env_0) (map entry_url entries_0) = [True, False, True]"
    unfolding entry_urls_0 by (simp add: succeeds_env_0 watch_distinct)
  then have succ: "map (\<lambda>e. entry_succeeds env_0 (entry_url e)) entries_0 = [True, False, True]"
    by (simp add: comp_def)
  have len: "length entries_0 = 3" by (simp add: entries_0_def)
  have items: "playlist_items catalog_0 = []" by (simp add: catalog_0_def)
  from download_playlist_itemizes [OF h1 h2 h3 h4 h5, of catalog_0 None]
  obtain db' name rs plid where r:
    "download_playlist env_0 catalog_0 ''https://www.youtube.com/playlist?list=PL1'' None
       = (db', Inr (PlaylistSuccess name 3 rs))"
    "length rs = 3" "map is_success rs = [True, False, True]"
    "select_playlist_id db' (Some ''PL1'') = Inr plid"
    "playlist_items db' = linked_items plid 0 rs"
    unfolding succ len items by auto
  from r(3) obtain a b c where abc: "rs = [a, b, c]" "is_success a" "\<not> is_success b"
    "is_success c"
    by (auto simp add: map_eq_Cons_conv)
  have "linked_items plid 0 rs
      = [\<lparr>pi_playlist_id = plid, pi_videos_id = r_db_id (rs ! 0), pi_position = 0\<rparr>,
         \<lparr>pi_playlist_id = plid, pi_videos_id = r_db_id (rs ! 2), pi_position = 2\<rparr>]"
    by (simp add: abc linked_items_Cons linked_items_Nil)
  with r show ?thesis by auto
qed

lemma playlist_loop_raises:
  assumes "\<forall>e \<in> set pre. entry_well_formed env (entry_url e)"
    and "ydl_probe env (entry_url bad) = Inr info" and "output_template env info = Inl x"
  shows "snd (playlist_loop env tgs name plid idx (pre @ bad # rest) db acc) = Inl x"
  using assms(1)
proof (induction pre arbitrary: idx db acc)
  case Nil
  then show ?case
    by (simp add: download_video_raises [OF assms(2,3)])
next
  case (Cons entry pre)
  from Cons.prems have wf: "entry_well_formed env (entry_url entry)" by simp
  from download_video_well_formed [OF wf, of db tgs name]
  obtain db1 r where r: "download_video env db (entry_url entry) tgs name = (db1, Inr r)"
    by blast
  from Cons.prems have "\<forall>e \<in> set pre. entry_well_formed env (entry_url e)" by simp
  then show ?case
    by (simp add: r sql_texts_ok Let_def Cons.IH)
qed

lemma download_playlist_raises:
  assumes "ydl_listing env playlist_url = Inr pinfo"
    and "pl_id pinfo = Val pid" and "pl_title pinfo \<noteq> Null"
    and "dict_get_default (pl_entries pinfo) [] = Some (pre @ bad # rest)"
    and "\<forall>e \<in> set pre. entry_well_formed env (entry_url e)"
    and "ydl_probe env (entry_url bad) = Inr info" and "output_template env info = Inl x"
  shows "snd (download_playlist env db playlist_url custom_tags) = Inl x"
proof -
  from assms(3) obtain n where n: "dict_get_default (pl_title pinfo) ''Unknown Playlist'' = Some n"
    by (cases "pl_title pinfo") simp_all
  define db1 where "db1 = insert_or_ignore_playlist db (Some pid) (Some n)
                             (dict_get_default (pl_description pinfo) []) (now env)"
  from select_after_insert [of db pid n "dict_get_default (pl_description pinfo) []" "now env"]
  obtain plid where plid: "select_playlist_id db1 (Some pid) = Inr plid"
    unfolding db1_def by blast
  from playlist_loop_raises [OF assms(5,6,7), of custom_tags "Some n" plid 0 rest db1 "[]"]
  obtain db' where "playlist_loop env custom_tags (Some n) plid 0 (pre @ bad # rest) db1 []
                      = (db', Inl x)"
    by (metis prod.collapse)
  then show ?thesis
    by (simp add: download_playlist_def assms(1,2,4) n sql_texts_ok Let_def
          db1_def [symmetric] plid)
qed

text \<open>
  Claim C5 fails on the code. \<open>download_video\<close> turns a failure into an error result
  only inside its two \<open>try\<close> blocks, around the two calls of the extractor; the
  statements between them are unguarded, and the loop of \<open>download_playlist\<close> has no
  handler. In the three-entry playlist below the metadata of the second entry has the
  uploader \<open>None\<close> (\<open>env_1\<close>: \<open>info.get('uploader', 'Unknown')\<close> returns \<open>None\<close> and
  \<open>re.sub\<close> raises \<open>TypeError\<close>), or the directory of its uploader cannot be created
  (\<open>env_2\<close>: \<open>output_dir.mkdir\<close> raises \<open>OSError\<close>). Either way \<open>download_playlist\<close>
  ends with the exception and returns no report; the first entry has been saved and
  linked at position 0, and the third entry is never tried.
\<close>

theorem download_playlist_ends_on_exception:
  "snd (download_playlist env_1 catalog_0 ''https://www.youtube.com/playlist?list=PL1'' None)
     = Inl TypeError
   \<and> map v_video_id (videos (fst (download_playlist env_1 catalog_0
         ''https://www.youtube.com/playlist?list=PL1'' None)))
       = [''aaa'', ''bbb'', ''ccc'', ''v1'']
   \<and> map pi_position (playlist_items (fst (download_playlist env_1 catalog_0
         ''https://www.youtube.com/playlist?list=PL1'' None)))
       = [0]
   \<and> snd (download_playlist env_2 catalog_0 ''https://www.youtube.com/playlist?list=PL1'' None)
       = Inl OSError
   \<and> map v_video_id (videos (fst (download_playlist env_2 catalog_0
         ''https://www.youtube.com/playlist?list=PL1'' None)))
       = [''aaa'', ''bbb'', ''ccc'', ''v1'']
   \<and> map pi_position (playlist_items (fst (download_playlist env_2 catalog_0
         ''https://www.youtube.com/playlist?list=PL1'' None)))
       = [0]"
proof (intro conjI)
  have h1: "ydl_listing env_1 ''https://www.youtube.com/playlist?list=PL1'' = Inr listing_0"
    by (simp add: env_1_def env_of_def)
  have h2: "pl_id listing_0 = Val ''PL1''" by (simp add: listing_0_def)
  have h3: "pl_title listing_0 \<noteq> Null" by (simp add: listing_0_def)
  have h4: "dict_get_default (pl_entries listing_0) []
      = Some ([\<lparr>e_url = Val (watch ''v1''), e_id = Val ''v1'', e_title = Val ''One''\<rparr>]
              @ \<lparr>e_url = Absent, e_id = Val ''v2'', e_title = Val ''Two''\<rparr>
              # [\<lparr>e_url = Null, e_id = Val ''v3'', e_title = Val ''Three''\<rparr>])"
    by (simp add: listing_0_def entries_0_def)
  have u1: "entry_url \<lparr>e_url = Val (watch ''v1''), e_id = Val ''v1'', e_title = Val ''One''\<rparr>
              = watch ''v1''"
    by (simp add: entry_url_def watch_def)
  have u2: "entry_url \<lparr>e_url = Absent, e_id = Val ''v2'', e_title = Val ''Two''\<rparr> = watch ''v2''"
    by (simp add: entry_url_def watch_def)
  from output_template_metadata obtain s t where
    "output_template env_1 (metadata (watch ''v1'') (Val ''Someone'')) = Inr (s, t)"
    unfolding env_1_def by blast
  then have "entry_well_formed env_1 (watch ''v1'')"
    using watch_distinct
    by (simp add: entry_well_formed_def env_1_def env_of_def)
       (simp add: metadata_def clip_def)
  then have h5: "\<forall>e \<in> set [\<lparr>e_url = Val (watch ''v1''), e_id = Val ''v1'', e_title = Val ''One''\<rparr>].
                   entry_well_formed env_1 (entry_url e)"
    by (simp add: u1)
  have h6: "ydl_probe env_1
              (entry_url \<lparr>e_url = Absent, e_id = Val ''v2'', e_title = Val ''Two''\<rparr>)
            = Inr (metadata (watch ''v2'') Null)"
    by (simp add: u2 env_1_def env_of_def)
  have h7: "output_template env_1 (metadata (watch ''v2'') Null) = Inl TypeError"
    by (simp add: output_template_def metadata_def clip_def is_youtube_short_def Let_def
          sanitize_filename_def)
  show "snd (download_playlist env_1 catalog_0 ''https://www.youtube.com/playlist?list=PL1''
               None) = Inl TypeError"
    by (rule download_playlist_raises [OF h1 h2 h3 h4 h5 h6 h7])
  show "map v_video_id (videos (fst (download_playlist env_1 catalog_0
          ''https://www.youtube.com/playlist?list=PL1'' None)))
        = [''aaa'', ''bbb'', ''ccc'', ''v1'']"
    by code_simp
  show "map pi_position (playlist_items (fst (download_playlist env_1 catalog_0
          ''https://www.youtube.com/playlist?list=PL1'' None)))
        = [0]"
    by code_simp
  show "snd (download_playlist env_2 catalog_0 ''https://www.youtube.com/playlist?list=PL1''
               None) = Inl OSError"
    by code_simp
  show "map v_video_id (videos (fst (download_playlist env_2 catalog_0
          ''https://www.youtube.com/playlist?list=PL1'' None)))
        = [''aaa'', ''bbb'', ''ccc'', ''v1'']"
    by code_simp
  show "map pi_position (playlist_items (fst (download_playlist env_2 catalog_0
          ''https://www.youtube.com/playlist?list=PL1'' None)))
        = [0]"
    by code_simp
qed

section \<open>Further facts\<close>

text \<open>
  \<open>save_to_database\<close> returns exactly for the records that carry a video id and a
  title, and raises \<open>IntegrityError\<close>, leaving the catalog as it was, for the others.
\<close>

lemma save_to_database_returns_iff:
  "(\<exists>db' i. save_to_database db vd tgs pn = (db', Inr i))
     \<longleftrightarrow> dict_get (vd_video_id vd) \<noteq> None \<and> dict_get (vd_title vd) \<noteq> None"
proof
  assume "\<exists>db' i. save_to_database db vd tgs pn = (db', Inr i)"
  then show "dict_get (vd_video_id vd) \<noteq> None \<and> dict_get (vd_title vd) \<noteq> None"
    by (auto simp add: save_to_database_def sql_texts_ok split: option.splits)
next
  assume "dict_get (vd_video_id vd) \<noteq> None \<and> dict_get (vd_title vd) \<noteq> None"
  then obtain vid title where k: "dict_get (vd_video_id vd) = Some vid"
    "dict_get (vd_title vd) = Some title"
    by auto
  show "\<exists>db' i. save_to_database db vd tgs pn = (db', Inr i)"
    unfolding save_to_database_unfold [OF k] by blast
qed

lemma save_to_database_integrity_error:
  assumes "dict_get (vd_video_id vd) = None \<or> dict_get (vd_title vd) = None"
  shows "save_to_database db vd tgs pn = (db, Inl IntegrityError)"
  using assms by (auto simp add: save_to_database_def sql_texts_ok split: option.splits)

text \<open>
  More on range headers: a header without \<open>-\<close> is never parsed, a request
  without the header gets the whole file, and \<open>stream_by_id\<close> answers as \<open>stream_video\<close> does once
  the row and its file are found.
\<close>

lemma set_py_replace_delete: "old \<noteq> [] \<Longrightarrow> set (py_replace old [] s) \<subseteq> set s"
proof (induction old "[]::string" s rule: py_replace.induct)
  case (1 old s)
  show ?case
  proof (cases "s = []")
    case True
    then show ?thesis by (simp add: py_replace.simps [of old "[]" "[]"] "1.prems")
  next
    case False
    show ?thesis
    proof (cases "take (length old) s = old")
      case True
      with 1 False have "set (py_replace old [] (drop (length old) s))
          \<subseteq> set (drop (length old) s)" by simp
      also have "\<dots> \<subseteq> set s" by (rule set_drop_subset)
      finally show ?thesis
        using True False "1.prems" by (simp add: py_replace.simps [of old "[]" s])
    next
      case nt: False
      with 1 False have "set (py_replace old [] (tl s)) \<subseteq> set (tl s)" by simp
      moreover have "set (tl s) \<subseteq> set s" using False by (cases s) auto
      moreover have "hd s \<in> set s" using False by simp
      ultimately show ?thesis
        using nt False "1.prems" by (auto simp add: py_replace.simps [of old "[]" s])
    qed
  qed
qed

lemma stream_video_no_dash:
  assumes "fs file_path = Some content" and "h \<noteq> []" and "CHR ''-'' \<notin> set h"
  shows "stream_video fs file_path (Some h) = Inl (HTTPException 500)"
proof -
  have "CHR ''-'' \<notin> set (py_replace ''bytes='' [] h)"
    using set_py_replace_delete [of "''bytes=''" h] assms(3) by auto
  then have "py_split CHR ''-'' (py_replace ''bytes='' [] h) = [py_replace ''bytes='' [] h]"
    by (rule py_split_absent)
  moreover have "length [py_replace ''bytes='' [] h] < 2
         \<or> py_int (hd [py_replace ''bytes='' [] h]) = Inl ValueError
         \<or> ([py_replace ''bytes='' [] h] ! 1 \<noteq> []
            \<and> py_int ([py_replace ''bytes='' [] h] ! 1) = Inl ValueError)"
    by simp
  ultimately have "\<exists>e. stream_video_try fs file_path (Some h) = Inl e"
    using assms(1,2) by (intro stream_video_try_unparsed)
  then show ?thesis by (auto simp add: stream_video_def except_500_def)
qed

lemma stream_video_no_range:
  assumes "fs file_path = Some content"
  shows "stream_video fs file_path None = Inr (FileResponse content)"
  using assms by (simp add: stream_video_def stream_video_try_def except_500_def)

lemma except_500_stream_video:
  "except_500 (stream_video fs file_path range_header) = stream_video fs file_path range_header"
  by (cases "stream_video_try fs file_path range_header")
     (simp_all add: stream_video_def except_500_def)

lemma stream_by_id_found:
  assumes "find (\<lambda>r. int (v_id r) = video_id) (videos db) = Some r"
    and "v_file_path r = Some video_path" and "video_path \<noteq> []"
    and "fs video_path = Some content"
  shows "stream_by_id db fs video_id range_header = stream_video fs video_path range_header"
  using assms
  by (simp add: stream_by_id_def stream_by_id_try_def sql_texts_ok except_500_stream_video)

text \<open>
  Not every header outside the form \<open>bytes=start-end\<close> is refused: without the
  \<open>bytes=\<close> prefix the bounds are parsed all the same and the answer is 206.
\<close>

lemma stream_video_without_prefix:
  "stream_video disk_0 ''media/shorts/a.mp4'' (Some ''100-199'')
     = Inr \<lparr>status_code = 206,
            headers = [(''Content-Range'', ''bytes 100-199/1000''),
                       (''Accept-Ranges'', ''bytes''),
                       (''Content-Length'', ''100''),
                       (''Content-Type'', ''video/mp4'')],
            body = Inr (take 100 (drop 100 file_1000))\<rparr>"
proof -
  have f1: "disk_0 ''media/shorts/a.mp4'' = Some file_1000" by (simp add: disk_0_def)
  have f2: "''100-199'' \<noteq> []" by simp
  have f3: "py_split CHR ''-'' (py_replace ''bytes='' [] ''100-199'') = [''100'', ''199'']"
    by (simp add: py_replace.simps)
  have f4: "''199'' \<noteq> []" by simp
  have "py_int (str_nat 100) = Inr (int 100)" "py_int (str_nat 199) = Inr (int 199)"
    by (rule py_int_str_nat, rule off_t_digits, simp)+
  then have f5: "py_int ''100'' = Inr 100" and f6: "py_int ''199'' = Inr 199"
    by (simp_all add: str_nat_examples)
  have f7: "(''199'' \<noteq> [] \<and> py_int ''199'' = Inr 199)
            \<or> (''199'' = [] \<and> (199::int) = int (length file_1000) - 1)"
    using f6 by simp
  have "py_str (int 100) = Inr (str_nat 100)" "py_str (int 199) = Inr (str_nat 199)"
    "py_str (int 1000) = Inr (str_nat 1000)"
    by (rule py_str_nat, rule off_t_digits, simp)+
  then have s1: "py_str 100 = Inr ''100''" and s2: "py_str 199 = Inr ''199''"
    and s3: "py_str (int (length file_1000)) = Inr ''1000''"
    and s4: "py_str (199 - 100 + 1) = Inr ''100''"
    by (simp_all add: str_nat_examples length_file_1000)
  have "stream_video_try disk_0 ''media/shorts/a.mp4'' (Some ''100-199'')
      = Inr (StreamingResponse (iterfile file_1000 100 (199 - 100 + 1)) 206
               [(''Content-Range'', ''bytes '' @ ''100'' @ ''-'' @ ''199'' @ ''/'' @ ''1000''),
                (''Accept-Ranges'', ''bytes''),
                (''Content-Length'', ''100''),
                (''Content-Type'', ''video/mp4'')])"
    using f1 f2 f3 f5 f7 s1 s2 s3 s4 by (rule stream_video_try_range)
  moreover have "StreamingResponse (iterfile file_1000 (int 100) (int 100)) 206 hs
      = \<lparr>status_code = 206, headers = hs, body = Inr (take 100 (drop 100 file_1000))\<rparr>" for hs
    by (rule streamed_slice) simp
  ultimately show ?thesis
    by (simp add: stream_video_def except_500_def)
qed

end
